theory Spec2Isabelle
  imports Main "HOL-Library.Word"
begin

unbundle bit_operations_syntax

section \<open>Go library functions used by the trader\<close>

subsection \<open>Package strings\<close>

text \<open>
  A Go string is a sequence of bytes, here a \<^typ>\<open>string\<close>. The functions follow the
  Go library: \<open>HasPrefix\<close> and \<open>HasSuffix\<close> compare the first or last \<open>len\<close> bytes,
  \<open>Contains\<close> looks for the substring at every offset, and \<open>Replace\<close> with
  \<open>n = 1\<close> rewrites the leftmost occurrence only.
\<close>

definition strings_HasPrefix :: "string \<Rightarrow> string \<Rightarrow> bool" where
  "strings_HasPrefix s pre = (length pre \<le> length s \<and> take (length pre) s = pre)"

definition strings_HasSuffix :: "string \<Rightarrow> string \<Rightarrow> bool" where
  "strings_HasSuffix s suf =
     (length suf \<le> length s \<and> drop (length s - length suf) s = suf)"

fun strings_Contains :: "string \<Rightarrow> string \<Rightarrow> bool" where
  "strings_Contains [] sub = (sub = [])"
| "strings_Contains (c # cs) sub =
     (strings_HasPrefix (c # cs) sub \<or> strings_Contains cs sub)"

text \<open>\<open>strings.Replace(s, old, new, 1)\<close>: the leftmost occurrence of \<open>old\<close> is replaced.\<close>

fun strings_Replace1 :: "string \<Rightarrow> string \<Rightarrow> string \<Rightarrow> string" where
  "strings_Replace1 [] old new = (if old = [] then new else [])"
| "strings_Replace1 (c # cs) old new =
     (if strings_HasPrefix (c # cs) old then new @ drop (length old) (c # cs)
      else c # strings_Replace1 cs old new)"

subsection \<open>Formatting an int with the verb \<open>%d\<close>\<close>

fun nat_digits :: "nat \<Rightarrow> string" where
  "nat_digits n =
     (if n < 10 then [''0123456789'' ! n]
      else nat_digits (n div 10) @ [''0123456789'' ! (n mod 10)])"

declare nat_digits.simps [simp del]

definition fmt_d :: "int \<Rightarrow> string" where
  "fmt_d i = (if i < 0 then CHR ''-'' # nat_digits (nat (- i)) else nat_digits (nat i))"

subsection \<open>float64 and the functions on it\<close>

text \<open>
  A \<open>float64\<close> is its IEEE-754 bit pattern: a sign bit, eleven bits of exponent and
  fifty-two bits of fraction. The comparison \<open>x == 0\<close> holds for \<open>+0\<close> and \<open>-0\<close> (all
  bits but the sign are zero) and for no other value. A value is finite unless its
  exponent is all ones; then it is a NaN when the fraction is not zero and an infinity
  otherwise.
\<close>

type_synonym float64 = "64 word"

definition f64_eq_zero :: "float64 \<Rightarrow> bool" where
  "f64_eq_zero x = (x AND 0x7FFFFFFFFFFFFFFF = 0)"

definition f64_sign :: "float64 \<Rightarrow> bool" where
  "f64_sign x = (2 ^ 63 \<le> unat x)"

definition f64_exponent :: "float64 \<Rightarrow> nat" where
  "f64_exponent x = unat x div 2 ^ 52 mod 2 ^ 11"

definition f64_fraction :: "float64 \<Rightarrow> nat" where
  "f64_fraction x = unat x mod 2 ^ 52"

definition f64_finite :: "float64 \<Rightarrow> bool" where
  "f64_finite x = (f64_exponent x \<noteq> 2047)"

subsection \<open>Formatting a float64 with the verb \<open>%.<p>f\<close>\<close>

text \<open>
  \<open>fmt.Sprintf\<close> with a verb \<open>%.<p>f\<close> prints a NaN as \<open>NaN\<close> and the infinities as
  \<open>+Inf\<close> and \<open>-Inf\<close>. It prints a finite value exactly rounded to \<open>p\<close> digits after
  the point, a tie going to the even digit: a minus sign when the sign bit is set, the
  digits of the whole part, and for \<open>p > 0\<close> the point and \<open>p\<close> digits. The magnitude of
  a finite value is \<open>m * 2 ^ (e - 1075)\<close> with \<open>m\<close> the fraction plus the hidden bit
  (\<open>m * 2 ^ -1074\<close> with \<open>m\<close> the fraction when the exponent field \<open>e\<close> is zero), so the
  magnitude scaled by \<open>10 ^ p\<close> is a quotient of naturals, rounded by \<open>round_half_even\<close>.
\<close>

definition round_half_even :: "nat \<Rightarrow> nat \<Rightarrow> nat" where
  "round_half_even num den =
     (let q = num div den; r = num mod den
      in if den < 2 * r \<or> (2 * r = den \<and> odd q) then q + 1 else q)"

definition f64_scaled :: "nat \<Rightarrow> float64 \<Rightarrow> nat" where
  "f64_scaled p x =
     (let e = f64_exponent x; m = f64_fraction x
      in if e = 0 then round_half_even (m * 10 ^ p) (2 ^ 1074)
         else if e < 1075 then round_half_even ((2 ^ 52 + m) * 10 ^ p) (2 ^ (1075 - e))
         else (2 ^ 52 + m) * 10 ^ p * 2 ^ (e - 1075))"

definition zero_pad :: "nat \<Rightarrow> string \<Rightarrow> string" where
  "zero_pad p ds = replicate (p - length ds) CHR ''0'' @ ds"

definition fmt_f :: "nat \<Rightarrow> float64 \<Rightarrow> string" where
  "fmt_f p x =
     (if f64_exponent x = 2047
      then (if f64_fraction x \<noteq> 0 then ''NaN'' else if f64_sign x then ''-Inf'' else ''+Inf'')
      else (let n = f64_scaled p x
            in (if f64_sign x then ''-'' else []) @ nat_digits (n div 10 ^ p) @
               (if p = 0 then [] else CHR ''.'' # zero_pad p (nat_digits (n mod 10 ^ p)))))"

text \<open>
  The precision of a format string \<open>%.<digits>f\<close>, when the format is one (no digits
  mean precision zero; \<open>fmt\<close> refuses a precision above a million).
\<close>

definition is_digit :: "char \<Rightarrow> bool" where
  "is_digit c = (c \<in> set ''0123456789'')"

definition digit_value :: "char \<Rightarrow> nat" where
  "digit_value c = of_char c - 48"

definition digits_value :: "string \<Rightarrow> nat" where
  "digits_value ds = foldl (\<lambda>n c. 10 * n + digit_value c) 0 ds"

definition fixed_verb :: "string \<Rightarrow> nat option" where
  "fixed_verb format =
     (case format of
        c1 # c2 # rest \<Rightarrow>
          if c1 = CHR ''%'' \<and> c2 = CHR ''.'' \<and> rest \<noteq> [] \<and> last rest = CHR ''f'' \<and>
             list_all is_digit (butlast rest) \<and> digits_value (butlast rest) \<le> 1000000
          then Some (digits_value (butlast rest)) else None
      | _ \<Rightarrow> None)"

subsection \<open>Parsing a float64\<close>

text \<open>
  The result of \<open>strconv.ParseFloat(s, 64)\<close>: a value with a nil error, a range error
  with the infinity it returns, or a syntax error, which comes with the value \<open>0\<close>.
\<close>

datatype parse_float = Parsed float64 | RangeError float64 | SyntaxError

text \<open>
  \<open>strconv.ParseFloat\<close> first looks for the special values: it recognizes \<open>NaN\<close>, and
  \<open>Inf\<close> and \<open>Infinity\<close> with an optional sign, in any letter case (ASCII), and returns
  the NaN \<open>0x7FF8000000000001\<close> or the infinity of that sign with a nil error.
\<close>

definition ascii_lower :: "char \<Rightarrow> char" where
  "ascii_lower c =
     (case map_of (zip ''ABCDEFGHIJKLMNOPQRSTUVWXYZ'' ''abcdefghijklmnopqrstuvwxyz'') c of
        Some l \<Rightarrow> l | None \<Rightarrow> c)"

definition strconv_special :: "string \<Rightarrow> float64 option" where
  "strconv_special s =
     (let l = map ascii_lower s
      in if l = ''nan'' then Some 0x7FF8000000000001
         else if l = ''inf'' \<or> l = ''+inf'' \<or> l = ''infinity'' \<or> l = ''+infinity''
         then Some 0x7FF0000000000000
         else if l = ''-inf'' \<or> l = ''-infinity'' then Some 0xFFF0000000000000
         else None)"

subsection \<open>What is left to the library\<close>

text \<open>
  The rest of the Go runtime and library is a parameter of the trader, and the theorems
  hold for every such \<open>golib\<close>: \<open>parse_number\<close> is \<open>strconv.ParseFloat\<close> on the strings
  that are no special value (decimal and hexadecimal numbers, rounded to the nearest
  float64, and the syntax error for everything else), \<open>fmt_other\<close> is \<open>fmt.Sprintf\<close> on
  the format strings that are no \<open>%.<digits>f\<close>, \<open>strings_ToLower\<close> is
  \<open>strings.ToLower\<close>, and \<open>float64_sub\<close> is the rounding subtraction.
\<close>

record golib =
  parse_number :: "string \<Rightarrow> parse_float"
  fmt_other :: "string \<Rightarrow> float64 \<Rightarrow> string"
  strings_ToLower :: "string \<Rightarrow> string"
  float64_sub :: "float64 \<Rightarrow> float64 \<Rightarrow> float64"

definition strconv_ParseFloat :: "golib \<Rightarrow> string \<Rightarrow> parse_float" where
  "strconv_ParseFloat L s =
     (case strconv_special s of
        Some f \<Rightarrow> Parsed f
      | None \<Rightarrow> parse_number L s)"

definition fmt_Sprintf :: "golib \<Rightarrow> string \<Rightarrow> float64 \<Rightarrow> string" where
  "fmt_Sprintf L format x =
     (case fixed_verb format of
        Some p \<Rightarrow> fmt_f p x
      | None \<Rightarrow> fmt_other L format x)"

subsection \<open>Fixed-point strings\<close>

text \<open>
  In the words of the spec: a fixed-point decimal string with exactly \<open>p\<close> decimal digits
  is an optional minus sign, one digit or more, a point, and \<open>p\<close> digits.
\<close>

definition fixed_point :: "nat \<Rightarrow> string \<Rightarrow> bool" where
  "fixed_point p s =
     (let body = (case s of c # r \<Rightarrow> if c = CHR ''-'' then r else s | [] \<Rightarrow> s);
          whole = takeWhile is_digit body;
          rest = dropWhile is_digit body
      in whole \<noteq> [] \<and>
         (case rest of c # frac \<Rightarrow> c = CHR ''.'' \<and> length frac = p \<and> list_all is_digit frac
          | [] \<Rightarrow> False))"

section \<open>Helper functions of the trader\<close>

text \<open>\<open>okxSymbol\<close> turns \<open>BTCUSDT\<close> into \<open>BTC-USDT-SWAP\<close>.\<close>

definition okxSymbol :: "string \<Rightarrow> string" where
  "okxSymbol symbol =
     (if strings_HasSuffix symbol ''USDT''
      then strings_Replace1 symbol ''USDT'' ''-USDT-SWAP''
      else symbol @ ''-USDT-SWAP'')"

text \<open>\<open>standardSymbol\<close> turns \<open>BTC-USDT-SWAP\<close> into \<open>BTCUSDT\<close>.\<close>

definition standardSymbol :: "string \<Rightarrow> string" where
  "standardSymbol instID =
     (if strings_HasSuffix instID ''-USDT-SWAP''
      then strings_Replace1 instID ''-USDT-SWAP'' ''USDT''
      else instID)"

text \<open>\<open>parseFloat\<close> drops the error of \<open>strconv.ParseFloat\<close> and returns its value.\<close>

definition parseFloat :: "golib \<Rightarrow> string \<Rightarrow> float64" where
  "parseFloat L s =
     (case strconv_ParseFloat L s of
        Parsed f \<Rightarrow> f
      | RangeError f \<Rightarrow> f
      | SyntaxError \<Rightarrow> 0)"

text \<open>
  Modelled from the spec: \<open>calculatePrecision\<close> is called by the precision lookups and
  not defined in the sources at hand. The spec derives the digit count from the minimum-step
  field as the count of digits after the decimal point, zero if the step is integral.
\<close>

definition calculatePrecision :: "string \<Rightarrow> int" where
  "calculatePrecision step =
     (case dropWhile (\<lambda>c. c \<noteq> CHR ''.'') step of
        [] \<Rightarrow> 0
      | dot # frac \<Rightarrow> int (length frac))"

section \<open>The exchange client\<close>

subsection \<open>Response data\<close>

text \<open>
  The entries of a response's \<open>Data\<close>, with the fields the trader reads. Field names
  carry a prefix where two SDK structs share a name.
\<close>

record account =
  acc_TotalEq :: string
  acc_Upl :: string
  acc_AvailEq :: string

record position =
  pos_InstID :: string
  pos_PosSide :: string
  pos_Pos :: string
  pos_AvgPx :: string
  pos_MarkPx :: string
  pos_Upl :: string
  pos_Lever :: string
  pos_LiqPx :: string

record order_data =
  ord_OrdID :: string
  ord_SCode :: string
  ord_SMsg :: string

record algo_data =
  algo_SCode :: string
  algo_SMsg :: string

record algo_order =
  AlgoID :: string

record ticker =
  tick_Last :: string

record instrument =
  LotSz :: string
  TickSz :: string

subsection \<open>Requests\<close>

record place_order_request =
  po_InstID :: string
  po_TdMode :: string
  po_Side :: string
  po_OrdType :: string
  po_Sz :: string
  po_PosSide :: string

record place_algo_order_request =
  pa_InstID :: string
  pa_TdMode :: string
  pa_Side :: string
  pa_PosSide :: string
  pa_OrdType :: string
  pa_Sz :: string
  pa_SlTriggerPx :: string
  pa_SlOrdPx :: string
  pa_TpTriggerPx :: string
  pa_TpOrdPx :: string

text \<open>
  A request as the trader hands it to the SDK. A field the source leaves unset is the empty
  string. The arguments are, in order:
  \<open>GetAccountRequest Ccy\<close>, \<open>GetPositionsRequest InstType InstID\<close>,
  \<open>SetLeverageRequest InstID Lever MgnMode\<close>, \<open>GetTickerRequest InstID\<close>,
  \<open>GetAlgoOrderListRequest InstType InstID OrdType\<close>,
  \<open>CancelAlgoOrderRequest InstID AlgoID\<close>, \<open>GetInstrumentsRequest InstType InstID\<close>.
\<close>

datatype request =
    GetAccountRequest string
  | GetPositionsRequest string string
  | SetLeverageRequest string string string
  | PlaceOrderRequest place_order_request
  | GetTickerRequest string
  | PlaceAlgoOrderRequest place_algo_order_request
  | GetAlgoOrderListRequest string string string
  | CancelAlgoOrderRequest string string
  | GetInstrumentsRequest string string

subsection \<open>Endpoints\<close>

text \<open>
  The REST client is opaque: each endpoint reads and changes the state \<open>'w\<close> of the world
  outside the trader, and returns either the SDK's error (its message, \<open>Inl\<close>) or the
  \<open>Data\<close> of the response. Nothing is assumed about an endpoint: it may answer two equal
  requests differently.
\<close>

record 'w rest_api =
  Account_GetAccount :: "string \<Rightarrow> 'w \<Rightarrow> (string + account list) \<times> 'w"
  Account_GetPositions :: "string \<Rightarrow> string \<Rightarrow> 'w \<Rightarrow> (string + position list) \<times> 'w"
  Account_SetLeverage :: "string \<Rightarrow> string \<Rightarrow> string \<Rightarrow> 'w \<Rightarrow> string option \<times> 'w"
  Trade_PlaceOrder :: "place_order_request \<Rightarrow> 'w \<Rightarrow> (string + order_data list) \<times> 'w"
  Market_GetTicker :: "string \<Rightarrow> 'w \<Rightarrow> (string + ticker list) \<times> 'w"
  Trade_PlaceAlgoOrder ::
    "place_algo_order_request \<Rightarrow> 'w \<Rightarrow> (string + algo_data list) \<times> 'w"
  Trade_GetAlgoOrderList ::
    "string \<Rightarrow> string \<Rightarrow> string \<Rightarrow> 'w \<Rightarrow> (string + algo_order list) \<times> 'w"
  Trade_CancelAlgoOrder :: "string \<Rightarrow> string \<Rightarrow> 'w \<Rightarrow> string option \<times> 'w"
  Public_GetInstruments :: "string \<Rightarrow> string \<Rightarrow> 'w \<Rightarrow> (string + instrument list) \<times> 'w"

section \<open>The trader\<close>

text \<open>
  The state of an \<open>OkxTrader\<close> and of what it talks to: the world behind the client, the
  requests sent so far (oldest first) and the precision cache. Log lines and the settling
  delay after a leverage change are not part of the model.
\<close>

record 'w trader =
  world :: 'w
  sent :: "request list"
  precisions :: "string \<rightharpoonup> int"

definition send :: "request \<Rightarrow> ('w \<Rightarrow> 'r \<times> 'w) \<Rightarrow> 'w trader \<Rightarrow> 'r \<times> 'w trader" where
  "send req endpoint t =
     (case endpoint (world t) of
        (r, w') \<Rightarrow> (r, t\<lparr>world := w', sent := sent t @ [req]\<rparr>))"

text \<open>The errors the trader returns, one constructor for each place that makes one.\<close>

datatype error =
    SdkError string
  | GetBalanceFailed string
  | NoAccountData
  | GetPositionsFailed string
  | SetLeverageFailed string
  | PlaceOrderFailed string string string string
  | NoOrderData
  | OrderRejected string string
  | NoLongPosition string
  | NoShortPosition string
  | GetTickerFailed string
  | NoTickerData string
  | PlaceAlgoOrderFailed string
  | NoAlgoData
  | AlgoOrderRejected string string
  | InstrumentNotFound string

text \<open>The maps the trader returns, one field for each key.\<close>

record balance =
  totalWalletBalance :: float64
  availableBalance :: float64
  totalUnrealizedProfit :: float64

record position_map =
  pm_symbol :: string
  pm_side :: string
  pm_positionAmt :: float64
  pm_entryPrice :: float64
  pm_markPrice :: float64
  pm_unRealizedProfit :: float64
  pm_leverage :: float64
  pm_liquidationPrice :: float64

record order_result =
  res_orderId :: string
  res_symbol :: string
  res_status :: string

subsection \<open>Precision cache and formatting\<close>

definition getInstrument ::
  "'w rest_api \<Rightarrow> string \<Rightarrow> 'w trader \<Rightarrow> (error + instrument) \<times> 'w trader" where
  "getInstrument api instID t =
     (case send (GetInstrumentsRequest ''SWAP'' instID)
             (Public_GetInstruments api ''SWAP'' instID) t of
        (Inl err, t') \<Rightarrow> (Inl (SdkError err), t')
      | (Inr [], t') \<Rightarrow> (Inl (InstrumentNotFound instID), t')
      | (Inr (inst # others), t') \<Rightarrow> (Inr inst, t'))"

definition getLotSzPrecision ::
  "'w rest_api \<Rightarrow> string \<Rightarrow> 'w trader \<Rightarrow> (error + int) \<times> 'w trader" where
  "getLotSzPrecision api instID t =
     (case precisions t (instID @ ''_lotSz'') of
        Some val \<Rightarrow> (Inr val, t)
      | None \<Rightarrow>
          (case getInstrument api instID t of
             (Inl err, t') \<Rightarrow> (Inl err, t')
           | (Inr inst, t') \<Rightarrow>
               (let precision = calculatePrecision (LotSz inst)
                in (Inr precision,
                    t'\<lparr>precisions := (precisions t')(instID @ ''_lotSz'' \<mapsto> precision)\<rparr>))))"

definition getTickSzPrecision ::
  "'w rest_api \<Rightarrow> string \<Rightarrow> 'w trader \<Rightarrow> (error + int) \<times> 'w trader" where
  "getTickSzPrecision api instID t =
     (case precisions t (instID @ ''_tickSz'') of
        Some val \<Rightarrow> (Inr val, t)
      | None \<Rightarrow>
          (case getInstrument api instID t of
             (Inl err, t') \<Rightarrow> (Inl err, t')
           | (Inr inst, t') \<Rightarrow>
               (let precision = calculatePrecision (TickSz inst)
                in (Inr precision,
                    t'\<lparr>precisions := (precisions t')(instID @ ''_tickSz'' \<mapsto> precision)\<rparr>))))"

text \<open>
  \<open>FormatQuantity\<close> and \<open>FormatPrice\<close> return a string and an error, as in the source;
  the format string \<open>fmt.Sprintf("%%.%df", precision)\<close> is \<open>%.\<close>, the precision, \<open>f\<close>.
\<close>

definition FormatQuantity ::
  "'w rest_api \<Rightarrow> golib \<Rightarrow> string \<Rightarrow> float64 \<Rightarrow> 'w trader
     \<Rightarrow> (string \<times> error option) \<times> 'w trader" where
  "FormatQuantity api L symbol quantity t =
     (let instID = okxSymbol symbol in
      case getLotSzPrecision api instID t of
        (r, t') \<Rightarrow>
          (let precision = (case r of Inl err \<Rightarrow> 3 | Inr p \<Rightarrow> p);
               format = ''%.'' @ fmt_d precision @ ''f''
           in ((fmt_Sprintf L format quantity, None), t')))"

definition FormatPrice ::
  "'w rest_api \<Rightarrow> golib \<Rightarrow> string \<Rightarrow> float64 \<Rightarrow> 'w trader
     \<Rightarrow> (string \<times> error option) \<times> 'w trader" where
  "FormatPrice api L symbol price t =
     (let instID = okxSymbol symbol in
      case getTickSzPrecision api instID t of
        (r, t') \<Rightarrow>
          (let precision = (case r of Inl err \<Rightarrow> 2 | Inr p \<Rightarrow> p);
               format = ''%.'' @ fmt_d precision @ ''f''
           in ((fmt_Sprintf L format price, None), t')))"

subsection \<open>Balance and positions\<close>

definition GetBalance ::
  "'w rest_api \<Rightarrow> golib \<Rightarrow> 'w trader \<Rightarrow> (error + balance) \<times> 'w trader" where
  "GetBalance api L t =
     (case send (GetAccountRequest ''USDT'') (Account_GetAccount api ''USDT'') t of
        (Inl err, t') \<Rightarrow> (Inl (GetBalanceFailed err), t')
      | (Inr [], t') \<Rightarrow> (Inl NoAccountData, t')
      | (Inr (acc # others), t') \<Rightarrow>
          (let totalEq = parseFloat L (acc_TotalEq acc);
               upl = parseFloat L (acc_Upl acc);
               availEq = parseFloat L (acc_AvailEq acc);
               totalWalletBalance = float64_sub L totalEq upl
           in (Inr \<lparr>totalWalletBalance = totalWalletBalance,
                    availableBalance = availEq,
                    totalUnrealizedProfit = upl\<rparr>, t')))"

text \<open>The map \<open>GetPositions\<close> builds for one position that it keeps.\<close>

definition posMap :: "golib \<Rightarrow> position \<Rightarrow> position_map" where
  "posMap L pos =
     \<lparr>pm_symbol = standardSymbol (pos_InstID pos),
      pm_side = pos_PosSide pos,
      pm_positionAmt = parseFloat L (pos_Pos pos),
      pm_entryPrice = parseFloat L (pos_AvgPx pos),
      pm_markPrice = parseFloat L (pos_MarkPx pos),
      pm_unRealizedProfit = parseFloat L (pos_Upl pos),
      pm_leverage = parseFloat L (pos_Lever pos),
      pm_liquidationPrice = parseFloat L (pos_LiqPx pos)\<rparr>"

text \<open>The loop of \<open>GetPositions\<close> over the response, with the slice \<open>result\<close> it appends to.\<close>

fun positions_loop :: "golib \<Rightarrow> position list \<Rightarrow> position_map list \<Rightarrow> position_map list" where
  "positions_loop L [] result = result"
| "positions_loop L (pos # rest) result =
     (let posAmt = parseFloat L (pos_Pos pos)
      in if f64_eq_zero posAmt then positions_loop L rest result
         else positions_loop L rest (result @ [posMap L pos]))"

definition GetPositions ::
  "'w rest_api \<Rightarrow> golib \<Rightarrow> 'w trader \<Rightarrow> (error + position_map list) \<times> 'w trader" where
  "GetPositions api L t =
     (case send (GetPositionsRequest ''SWAP'' []) (Account_GetPositions api ''SWAP'' []) t of
        (Inl err, t') \<Rightarrow> (Inl (GetPositionsFailed err), t')
      | (Inr data, t') \<Rightarrow> (Inr (positions_loop L data []), t'))"

text \<open>The loop of \<open>getSpecificPosition\<close>: the first position on the requested side.\<close>

fun first_on_side :: "string \<Rightarrow> position list \<Rightarrow> position option" where
  "first_on_side posSide [] = None"
| "first_on_side posSide (pos # rest) =
     (if pos_PosSide pos = posSide then Some pos else first_on_side posSide rest)"

definition getSpecificPosition ::
  "'w rest_api \<Rightarrow> string \<Rightarrow> string \<Rightarrow> 'w trader \<Rightarrow> (error + position option) \<times> 'w trader" where
  "getSpecificPosition api symbol posSide t =
     (let instID = okxSymbol symbol in
      case send (GetPositionsRequest [] instID) (Account_GetPositions api [] instID) t of
        (Inl err, t') \<Rightarrow> (Inl (SdkError err), t')
      | (Inr data, t') \<Rightarrow> (Inr (first_on_side posSide data), t'))"

subsection \<open>Leverage\<close>

definition SetLeverage ::
  "'w rest_api \<Rightarrow> string \<Rightarrow> int \<Rightarrow> 'w trader \<Rightarrow> error option \<times> 'w trader" where
  "SetLeverage api symbol leverage t =
     (let instID = okxSymbol symbol in
      case send (SetLeverageRequest instID (fmt_d leverage) ''isolated'')
             (Account_SetLeverage api instID (fmt_d leverage) ''isolated'') t of
        (Some err, t') \<Rightarrow>
          if strings_Contains err ''Leverage not change'' then (None, t')
          else (Some (SetLeverageFailed err), t')
      | (None, t') \<Rightarrow> (None, t'))"

subsection \<open>Market orders\<close>

definition placeOrder ::
  "'w rest_api \<Rightarrow> golib \<Rightarrow> string \<Rightarrow> string \<Rightarrow> string \<Rightarrow> string \<Rightarrow> float64 \<Rightarrow> 'w trader
     \<Rightarrow> (error + order_result) \<times> 'w trader" where
  "placeOrder api L symbol side ordType posSide quantity t =
     (let instID = okxSymbol symbol in
      case FormatQuantity api L instID quantity t of
        ((quantityStr, Some err), t1) \<Rightarrow> (Inl err, t1)
      | ((quantityStr, None), t1) \<Rightarrow>
          (let req0 = \<lparr>po_InstID = instID, po_TdMode = ''isolated'', po_Side = side,
                       po_OrdType = ordType, po_Sz = quantityStr, po_PosSide = []\<rparr>;
               req = (if posSide \<noteq> [] then req0\<lparr>po_PosSide := posSide\<rparr> else req0)
           in case send (PlaceOrderRequest req) (Trade_PlaceOrder api req) t1 of
                (Inl err, t2) \<Rightarrow> (Inl (PlaceOrderFailed instID side quantityStr err), t2)
              | (Inr [], t2) \<Rightarrow> (Inl NoOrderData, t2)
              | (Inr (orderData # others), t2) \<Rightarrow>
                  if ord_SCode orderData \<noteq> ''0''
                  then (Inl (OrderRejected (ord_SMsg orderData) (ord_SCode orderData)), t2)
                  else (Inr \<lparr>res_orderId = ord_OrdID orderData, res_symbol = symbol,
                             res_status = ''FILLED''\<rparr>, t2)))"

subsection \<open>Conditional orders\<close>

definition placeAlgoOrder ::
  "'w rest_api \<Rightarrow> string \<Rightarrow> string \<Rightarrow> string \<Rightarrow> string \<Rightarrow> string \<Rightarrow> 'w trader
     \<Rightarrow> error option \<times> 'w trader" where
  "placeAlgoOrder api symbol posSide ordType triggerPrice sz t =
     (let instID = okxSymbol symbol;
          side = (if posSide = ''short'' then ''buy'' else ''sell'');
          req0 = \<lparr>pa_InstID = instID, pa_TdMode = ''isolated'', pa_Side = side,
                  pa_PosSide = posSide, pa_OrdType = ordType, pa_Sz = sz,
                  pa_SlTriggerPx = [], pa_SlOrdPx = [],
                  pa_TpTriggerPx = [], pa_TpOrdPx = []\<rparr>;
          req = (if ordType = ''stop''
                 then req0\<lparr>pa_SlTriggerPx := triggerPrice, pa_SlOrdPx := ''-1''\<rparr>
                 else if ordType = ''tp''
                 then req0\<lparr>pa_TpTriggerPx := triggerPrice, pa_TpOrdPx := ''-1''\<rparr>
                 else req0)
      in case send (PlaceAlgoOrderRequest req) (Trade_PlaceAlgoOrder api req) t of
           (Inl err, t') \<Rightarrow> (Some (PlaceAlgoOrderFailed err), t')
         | (Inr [], t') \<Rightarrow> (Some NoAlgoData, t')
         | (Inr (d # others), t') \<Rightarrow>
             if algo_SCode d \<noteq> ''0''
             then (Some (AlgoOrderRejected (algo_SMsg d) (algo_SCode d)), t')
             else (None, t'))"

definition SetStopLoss ::
  "'w rest_api \<Rightarrow> golib \<Rightarrow> string \<Rightarrow> string \<Rightarrow> float64 \<Rightarrow> float64 \<Rightarrow> 'w trader
     \<Rightarrow> error option \<times> 'w trader" where
  "SetStopLoss api L symbol positionSide quantity stopPrice t =
     (let posSide = strings_ToLower L positionSide in
      case FormatQuantity api L (okxSymbol symbol) quantity t of
        ((quantityStr, Some err), t1) \<Rightarrow> (Some err, t1)
      | ((quantityStr, None), t1) \<Rightarrow>
          (case FormatPrice api L (okxSymbol symbol) stopPrice t1 of
             ((stopPriceStr, ignored), t2) \<Rightarrow>
               placeAlgoOrder api symbol posSide ''stop'' stopPriceStr quantityStr t2))"

definition SetTakeProfit ::
  "'w rest_api \<Rightarrow> golib \<Rightarrow> string \<Rightarrow> string \<Rightarrow> float64 \<Rightarrow> float64 \<Rightarrow> 'w trader
     \<Rightarrow> error option \<times> 'w trader" where
  "SetTakeProfit api L symbol positionSide quantity takeProfitPrice t =
     (let posSide = strings_ToLower L positionSide in
      case FormatQuantity api L (okxSymbol symbol) quantity t of
        ((quantityStr, Some err), t1) \<Rightarrow> (Some err, t1)
      | ((quantityStr, None), t1) \<Rightarrow>
          (case FormatPrice api L (okxSymbol symbol) takeProfitPrice t1 of
             ((tpPriceStr, ignored), t2) \<Rightarrow>
               placeAlgoOrder api symbol posSide ''tp'' tpPriceStr quantityStr t2))"

text \<open>
  The loop of \<open>CancelAllOrders\<close> over one listing: a cancel request for each order, whose
  response and error are both dropped.
\<close>

fun cancel_loop :: "'w rest_api \<Rightarrow> string \<Rightarrow> algo_order list \<Rightarrow> 'w trader \<Rightarrow> 'w trader" where
  "cancel_loop api instID [] t = t"
| "cancel_loop api instID (algo # rest) t =
     (case send (CancelAlgoOrderRequest instID (AlgoID algo))
             (Trade_CancelAlgoOrder api instID (AlgoID algo)) t of
        (ignored, t') \<Rightarrow> cancel_loop api instID rest t')"

definition CancelAllOrders ::
  "'w rest_api \<Rightarrow> string \<Rightarrow> 'w trader \<Rightarrow> error option \<times> 'w trader" where
  "CancelAllOrders api symbol t =
     (let instID = okxSymbol symbol in
      case send (GetAlgoOrderListRequest ''SWAP'' instID ''stop'')
             (Trade_GetAlgoOrderList api ''SWAP'' instID ''stop'') t of
        (r1, t1) \<Rightarrow>
          (let t2 = (case r1 of Inr algoList \<Rightarrow> cancel_loop api instID algoList t1
                              | Inl err \<Rightarrow> t1)
           in case send (GetAlgoOrderListRequest ''SWAP'' instID ''tp'')
                    (Trade_GetAlgoOrderList api ''SWAP'' instID ''tp'') t2 of
                (r2, t3) \<Rightarrow>
                  (let t4 = (case r2 of Inr algoList \<Rightarrow> cancel_loop api instID algoList t3
                                      | Inl err \<Rightarrow> t3)
                   in (None, t4))))"

subsection \<open>Opening and closing positions\<close>

definition OpenLong ::
  "'w rest_api \<Rightarrow> golib \<Rightarrow> string \<Rightarrow> float64 \<Rightarrow> int \<Rightarrow> 'w trader
     \<Rightarrow> (error + order_result) \<times> 'w trader" where
  "OpenLong api L symbol quantity leverage t =
     (case CancelAllOrders api symbol t of
        (logged, t1) \<Rightarrow>
          (case SetLeverage api symbol leverage t1 of
             (Some err, t2) \<Rightarrow> (Inl err, t2)
           | (None, t2) \<Rightarrow> placeOrder api L symbol ''buy'' ''market'' ''long'' quantity t2))"

definition OpenShort ::
  "'w rest_api \<Rightarrow> golib \<Rightarrow> string \<Rightarrow> float64 \<Rightarrow> int \<Rightarrow> 'w trader
     \<Rightarrow> (error + order_result) \<times> 'w trader" where
  "OpenShort api L symbol quantity leverage t =
     (case CancelAllOrders api symbol t of
        (logged, t1) \<Rightarrow>
          (case SetLeverage api symbol leverage t1 of
             (Some err, t2) \<Rightarrow> (Inl err, t2)
           | (None, t2) \<Rightarrow> placeOrder api L symbol ''sell'' ''market'' ''short'' quantity t2))"

definition CloseLong ::
  "'w rest_api \<Rightarrow> golib \<Rightarrow> string \<Rightarrow> float64 \<Rightarrow> 'w trader
     \<Rightarrow> (error + order_result) \<times> 'w trader" where
  "CloseLong api L symbol quantity t =
     (if f64_eq_zero quantity
      then (case getSpecificPosition api symbol ''long'' t of
              (Inl err, t1) \<Rightarrow> (Inl err, t1)
            | (Inr None, t1) \<Rightarrow> (Inl (NoLongPosition symbol), t1)
            | (Inr (Some pos), t1) \<Rightarrow>
                placeOrder api L symbol ''sell'' ''market'' ''long'' (parseFloat L (pos_Pos pos)) t1)
      else placeOrder api L symbol ''sell'' ''market'' ''long'' quantity t)"

definition CloseShort ::
  "'w rest_api \<Rightarrow> golib \<Rightarrow> string \<Rightarrow> float64 \<Rightarrow> 'w trader
     \<Rightarrow> (error + order_result) \<times> 'w trader" where
  "CloseShort api L symbol quantity t =
     (if f64_eq_zero quantity
      then (case getSpecificPosition api symbol ''short'' t of
              (Inl err, t1) \<Rightarrow> (Inl err, t1)
            | (Inr None, t1) \<Rightarrow> (Inl (NoShortPosition symbol), t1)
            | (Inr (Some pos), t1) \<Rightarrow>
                placeOrder api L symbol ''buy'' ''market'' ''short'' (parseFloat L (pos_Pos pos)) t1)
      else placeOrder api L symbol ''buy'' ''market'' ''short'' quantity t)"

definition GetMarketPrice ::
  "'w rest_api \<Rightarrow> golib \<Rightarrow> string \<Rightarrow> 'w trader \<Rightarrow> (error + float64) \<times> 'w trader" where
  "GetMarketPrice api L symbol t =
     (let instID = okxSymbol symbol in
      case send (GetTickerRequest instID) (Market_GetTicker api instID) t of
        (Inl err, t') \<Rightarrow> (Inl (GetTickerFailed err), t')
      | (Inr [], t') \<Rightarrow> (Inl (NoTickerData instID), t')
      | (Inr (d # others), t') \<Rightarrow> (Inr (parseFloat L (tick_Last d)), t'))"

section \<open>An example exchange\<close>

text \<open>
  A small exchange and library on which the theorems below are instantiated. The world is
  the number of requests answered so far. The exchange lists the instrument
  \<open>BTC-USDT-SWAP\<close> with lot size \<open>0.01\<close> and no other, holds the positions \<open>held\<close>,
  accepts a leverage change on its first request and reports it unchanged afterwards,
  fails to list stop-loss orders, lists two take-profit orders, and fails to cancel the
  first of them.
\<close>

definition example_api :: "position list \<Rightarrow> nat rest_api" where
  "example_api held =
     \<lparr>Account_GetAccount = (\<lambda>ccy w.
        (Inr [\<lparr>acc_TotalEq = ''1000'', acc_Upl = ''n/a'', acc_AvailEq = ''800''\<rparr>], Suc w)),
      Account_GetPositions = (\<lambda>instType instID w. (Inr held, Suc w)),
      Account_SetLeverage = (\<lambda>instID lever mgnMode w.
        (if w = 0 then None else Some ''51000: Leverage not change'', Suc w)),
      Trade_PlaceOrder = (\<lambda>req w.
        (Inr [\<lparr>ord_OrdID = ''42'', ord_SCode = ''0'', ord_SMsg = []\<rparr>], Suc w)),
      Market_GetTicker = (\<lambda>instID w. (Inl ''timeout'', Suc w)),
      Trade_PlaceAlgoOrder = (\<lambda>req w.
        (Inr [\<lparr>algo_SCode = ''0'', algo_SMsg = []\<rparr>], Suc w)),
      Trade_GetAlgoOrderList = (\<lambda>instType instID ordType w.
        (if ordType = ''stop'' then Inl ''timeout''
         else Inr [\<lparr>AlgoID = ''a1''\<rparr>, \<lparr>AlgoID = ''a2''\<rparr>], Suc w)),
      Trade_CancelAlgoOrder = (\<lambda>instID algoID w.
        (if algoID = ''a1'' then Some ''cancel failed'' else None, Suc w)),
      Public_GetInstruments = (\<lambda>instType instID w.
        (if instID = ''BTC-USDT-SWAP'' then Inr [\<lparr>LotSz = ''0.01'', TickSz = ''0.1''\<rparr>]
         else Inl ''51001: Instrument ID does not exist'', Suc w))\<rparr>"

text \<open>
  The library of the example parses the numbers \<open>0\<close>, \<open>2.0\<close> (bits
  \<open>0x4000000000000000\<close>), \<open>800\<close> and \<open>1000\<close> and rejects every other string that is
  no special value as malformed; it answers a format that is no \<open>%.<digits>f\<close> with the
  format itself; it lower-cases \<open>LONG\<close> and \<open>SHORT\<close>; it subtracts zero exactly and
  answers any other subtraction with a NaN.
\<close>

definition example_lib :: golib where
  "example_lib =
     \<lparr>parse_number = (\<lambda>s.
        if s = ''0'' then Parsed 0
        else if s = ''2.0'' then Parsed 0x4000000000000000
        else if s = ''800'' then Parsed 0x4089000000000000
        else if s = ''1000'' then Parsed 0x408F400000000000
        else SyntaxError),
      fmt_other = (\<lambda>format x. format),
      strings_ToLower = (\<lambda>s.
        if s = ''LONG'' then ''long'' else if s = ''SHORT'' then ''short'' else s),
      float64_sub = (\<lambda>x y. if y = 0 then x else 0x7FF8000000000001)\<rparr>"

definition example_trader :: "nat trader" where
  "example_trader = \<lparr>world = 0, sent = [], precisions = Map.empty\<rparr>"

definition long_position :: "string \<Rightarrow> position" where
  "long_position amount =
     \<lparr>pos_InstID = ''BTC-USDT-SWAP'', pos_PosSide = ''long'', pos_Pos = amount,
      pos_AvgPx = ''0'', pos_MarkPx = ''0'', pos_Upl = ''0'', pos_Lever = ''0'',
      pos_LiqPx = ''0''\<rparr>"

definition short_position :: "string \<Rightarrow> position" where
  "short_position amount =
     \<lparr>pos_InstID = ''ETH-USDT-SWAP'', pos_PosSide = ''short'', pos_Pos = amount,
      pos_AvgPx = ''0'', pos_MarkPx = ''0'', pos_Upl = ''0'', pos_Lever = ''0'',
      pos_LiqPx = ''0''\<rparr>"

section \<open>Basic facts\<close>

lemma send_eq:
  "send req endpoint t =
     (fst (endpoint (world t)),
      t\<lparr>world := snd (endpoint (world t)), sent := sent t @ [req]\<rparr>)"
  by (simp add: send_def split: prod.split)

subsection \<open>The library on the values of the example\<close>

lemma zero_pad_small:
  "zero_pad 3 ''0'' = ''000''" "zero_pad 2 ''0'' = ''00''"
  by (simp_all add: zero_pad_def eval_nat_numeral)

lemma fmt_f_two: "fmt_f 3 0x4000000000000000 = ''2.000''" "fmt_f 2 0x4000000000000000 = ''2.00''"
proof -
  have "f64_scaled 3 0x4000000000000000 = 2000" "f64_scaled 2 0x4000000000000000 = 200"
    by (simp_all add: f64_exponent_def f64_fraction_def f64_scaled_def round_half_even_def
        Let_def)
  then show "fmt_f 3 0x4000000000000000 = ''2.000''" "fmt_f 2 0x4000000000000000 = ''2.00''"
    by (simp_all add: fmt_f_def f64_exponent_def f64_fraction_def f64_sign_def
        nat_digits.simps zero_pad_small Let_def)
qed

lemma fmt_f_NaN: "fmt_f p 0x7FF8000000000001 = ''NaN''"
  by (simp add: fmt_f_def f64_exponent_def f64_fraction_def)

lemma fixed_verb_3_2: "fixed_verb ''%.3f'' = Some 3" "fixed_verb ''%.2f'' = Some 2"
  by (simp_all add: fixed_verb_def is_digit_def digits_value_def digit_value_def)

lemma Sprintf_3f: "fmt_Sprintf L ''%.3f'' x = fmt_f 3 x"
  by (simp add: fmt_Sprintf_def fixed_verb_3_2)

lemma Sprintf_2f: "fmt_Sprintf L ''%.2f'' x = fmt_f 2 x"
  by (simp add: fmt_Sprintf_def fixed_verb_3_2)

lemma Sprintf_two:
  "fmt_Sprintf L ''%.3f'' 0x4000000000000000 = ''2.000''"
  "fmt_Sprintf L ''%.2f'' 0x4000000000000000 = ''2.00''"
  by (simp_all add: Sprintf_3f Sprintf_2f fmt_f_two)

lemma ParseFloat_special: "strconv_special s = Some f \<Longrightarrow> strconv_ParseFloat L s = Parsed f"
  by (simp add: strconv_ParseFloat_def)

lemma ParseFloat_NaN: "strconv_ParseFloat L ''NaN'' = Parsed 0x7FF8000000000001"
  by (simp add: strconv_ParseFloat_def strconv_special_def ascii_lower_def)

lemma example_numbers:
  "strconv_ParseFloat L ''0'' = parse_number L ''0''"
  "strconv_ParseFloat L ''2.0'' = parse_number L ''2.0''"
  "strconv_ParseFloat L ''800'' = parse_number L ''800''"
  "strconv_ParseFloat L ''1000'' = parse_number L ''1000''"
  "strconv_ParseFloat L ''n/a'' = parse_number L ''n/a''"
  by (simp_all add: strconv_ParseFloat_def strconv_special_def ascii_lower_def)

lemmas model_defs = placeOrder_def FormatQuantity_def FormatPrice_def getLotSzPrecision_def
  getTickSzPrecision_def getInstrument_def send_eq okxSymbol_def standardSymbol_def
  strings_HasSuffix_def strings_HasPrefix_def fmt_d_def nat_digits.simps calculatePrecision_def
  example_api_def example_lib_def example_trader_def Let_def Sprintf_two example_numbers

lemma okxSymbol_BTCUSDT: "okxSymbol ''BTCUSDT'' = ''BTC-USDT-SWAP''"
  by (simp add: okxSymbol_def strings_HasSuffix_def strings_HasPrefix_def)

lemma f64_eq_zero_0: "f64_eq_zero 0"
  by (simp add: f64_eq_zero_def)

lemma fmt_d_3: "fmt_d 3 = ''3''"
  by (simp add: fmt_d_def nat_digits.simps)

lemma fmt_d_2: "fmt_d 2 = ''2''"
  by (simp add: fmt_d_def nat_digits.simps)

subsection \<open>The instrument ID is longer than the symbol\<close>

lemma HasSuffix_tail:
  assumes "strings_HasSuffix (c # cs) old" "\<not> strings_HasPrefix (c # cs) old"
  shows "strings_HasSuffix cs old"
proof -
  from assms(1) have le: "length old \<le> Suc (length cs)"
    and eq: "drop (Suc (length cs) - length old) (c # cs) = old"
    by (simp_all add: strings_HasSuffix_def)
  have "length old \<noteq> Suc (length cs)"
  proof
    assume "length old = Suc (length cs)"
    with eq have "old = c # cs" by simp
    with assms(2) show False by (simp add: strings_HasPrefix_def)
  qed
  with le have le': "length old \<le> length cs" by simp
  then have "Suc (length cs) - length old = Suc (length cs - length old)" by simp
  with eq have "drop (length cs - length old) cs = old" by simp
  with le' show ?thesis by (simp add: strings_HasSuffix_def)
qed

lemma length_Replace1:
  "strings_HasSuffix s old \<Longrightarrow>
     length (strings_Replace1 s old new) + length old = length s + length new"
proof (induction s)
  case Nil
  then show ?case by (simp add: strings_HasSuffix_def)
next
  case (Cons c cs)
  show ?case
  proof (cases "strings_HasPrefix (c # cs) old")
    case True
    then show ?thesis by (simp add: strings_HasPrefix_def)
  next
    case False
    with Cons.prems have "strings_HasSuffix cs old" by (rule HasSuffix_tail)
    with Cons.IH False show ?thesis by simp
  qed
qed

lemma length_okxSymbol: "length s < length (okxSymbol s)"
proof (cases "strings_HasSuffix s ''USDT''")
  case True
  from length_Replace1[OF True, of "''-USDT-SWAP''"] True show ?thesis
    by (simp add: okxSymbol_def)
next
  case False
  then show ?thesis by (simp add: okxSymbol_def)
qed

text \<open>Translating twice never gives the instrument ID of translating once.\<close>

lemma okxSymbol_not_fixed: "okxSymbol s \<noteq> s"
  using length_okxSymbol[of s] by auto

subsection \<open>Requests sent and states reached\<close>

lemma getInstrument_state:
  "snd (getInstrument api instID t) =
     t\<lparr>world := snd (Public_GetInstruments api ''SWAP'' instID (world t)),
       sent := sent t @ [GetInstrumentsRequest ''SWAP'' instID]\<rparr>"
  by (simp add: getInstrument_def send_eq split: sum.split list.split)

text \<open>The metadata lookup fails on an SDK error and on a response without entries.\<close>

lemma getInstrument_fails_iff:
  "isl (fst (getInstrument api instID t)) \<longleftrightarrow>
     (case fst (Public_GetInstruments api ''SWAP'' instID (world t)) of
        Inl err \<Rightarrow> True | Inr data \<Rightarrow> data = [])"
  by (simp add: getInstrument_def send_eq split: sum.split list.split)

lemma getLotSzPrecision_sent:
  "sent (snd (getLotSzPrecision api instID t)) =
     sent t @ (if precisions t (instID @ ''_lotSz'') = None
               then [GetInstrumentsRequest ''SWAP'' instID] else [])"
  using getInstrument_state[of api instID t]
  by (cases "getInstrument api instID t")
     (auto simp: getLotSzPrecision_def Let_def split: option.split sum.split)

lemma getTickSzPrecision_sent:
  "sent (snd (getTickSzPrecision api instID t)) =
     sent t @ (if precisions t (instID @ ''_tickSz'') = None
               then [GetInstrumentsRequest ''SWAP'' instID] else [])"
  using getInstrument_state[of api instID t]
  by (cases "getInstrument api instID t")
     (auto simp: getTickSzPrecision_def Let_def split: option.split sum.split)

lemma getLotSzPrecision_miss_fails:
  assumes "precisions t (instID @ ''_lotSz'') = None"
      and "isl (fst (getInstrument api instID t))"
  shows "isl (fst (getLotSzPrecision api instID t))"
  using assms
  by (cases "getInstrument api instID t")
     (auto simp: getLotSzPrecision_def Let_def split: sum.split)

lemma getTickSzPrecision_miss_fails:
  assumes "precisions t (instID @ ''_tickSz'') = None"
      and "isl (fst (getInstrument api instID t))"
  shows "isl (fst (getTickSzPrecision api instID t))"
  using assms
  by (cases "getInstrument api instID t")
     (auto simp: getTickSzPrecision_def Let_def split: sum.split)

lemma FormatQuantity_eq:
  "FormatQuantity api L symbol q t =
     ((fmt_Sprintf L (''%.'' @ fmt_d (case fst (getLotSzPrecision api (okxSymbol symbol) t) of
                                       Inl err \<Rightarrow> 3 | Inr p \<Rightarrow> p) @ ''f'') q, None),
      snd (getLotSzPrecision api (okxSymbol symbol) t))"
  by (simp add: FormatQuantity_def Let_def split: prod.split)

lemma FormatPrice_eq:
  "FormatPrice api L symbol p t =
     ((fmt_Sprintf L (''%.'' @ fmt_d (case fst (getTickSzPrecision api (okxSymbol symbol) t) of
                                       Inl err \<Rightarrow> 2 | Inr p \<Rightarrow> p) @ ''f'') p, None),
      snd (getTickSzPrecision api (okxSymbol symbol) t))"
  by (simp add: FormatPrice_def Let_def split: prod.split)

text \<open>
  What \<open>placeOrder\<close> does after formatting, by the response to its request. The position
  side of the request is the argument, empty or not.
\<close>

lemma placeOrder_eq:
  assumes "FormatQuantity api L (okxSymbol symbol) q t = ((sz, fe), t1)"
      and "req = \<lparr>po_InstID = okxSymbol symbol, po_TdMode = ''isolated'', po_Side = side,
                  po_OrdType = ordType, po_Sz = sz, po_PosSide = posSide\<rparr>"
      and "Trade_PlaceOrder api req (world t1) = (resp, w2)"
      and "t2 = t1\<lparr>world := w2, sent := sent t1 @ [PlaceOrderRequest req]\<rparr>"
  shows "placeOrder api L symbol side ordType posSide q t =
     (case resp of
        Inl err \<Rightarrow> (Inl (PlaceOrderFailed (okxSymbol symbol) side sz err), t2)
      | Inr [] \<Rightarrow> (Inl NoOrderData, t2)
      | Inr (orderData # others) \<Rightarrow>
          if ord_SCode orderData \<noteq> ''0''
          then (Inl (OrderRejected (ord_SMsg orderData) (ord_SCode orderData)), t2)
          else (Inr \<lparr>res_orderId = ord_OrdID orderData, res_symbol = symbol,
                     res_status = ''FILLED''\<rparr>, t2))"
proof -
  from assms(1) have fe: "fe = None"
    by (simp add: FormatQuantity_eq)
  have resp: "fst (Trade_PlaceOrder api req (world t1)) = resp"
    and w2: "snd (Trade_PlaceOrder api req (world t1)) = w2"
    by (simp_all add: assms(3))
  show ?thesis
  proof (cases "posSide = []")
    case True
    with assms(2) have "req = \<lparr>po_InstID = okxSymbol symbol, po_TdMode = ''isolated'',
        po_Side = side, po_OrdType = ordType, po_Sz = sz, po_PosSide = []\<rparr>"
      by simp
    with resp w2 True show ?thesis
      by (simp add: placeOrder_def Let_def assms(1,4) fe send_eq split: sum.split list.split)
  next
    case False
    with resp w2 assms(2) show ?thesis
      by (simp add: placeOrder_def Let_def assms(1,4) fe send_eq split: sum.split list.split)
  qed
qed

lemma placeOrder_sent:
  "sent (snd (placeOrder api L symbol side ordType posSide q t)) =
     sent (snd (FormatQuantity api L (okxSymbol symbol) q t)) @
     [PlaceOrderRequest \<lparr>po_InstID = okxSymbol symbol, po_TdMode = ''isolated'',
        po_Side = side, po_OrdType = ordType,
        po_Sz = fst (fst (FormatQuantity api L (okxSymbol symbol) q t)),
        po_PosSide = posSide\<rparr>]"
proof -
  obtain sz fe t1 where f: "FormatQuantity api L (okxSymbol symbol) q t = ((sz, fe), t1)"
    by (metis prod.exhaust)
  obtain resp w2 where p: "Trade_PlaceOrder api \<lparr>po_InstID = okxSymbol symbol,
        po_TdMode = ''isolated'', po_Side = side, po_OrdType = ordType, po_Sz = sz,
        po_PosSide = posSide\<rparr> (world t1) = (resp, w2)"
    by (metis prod.exhaust)
  show ?thesis
    unfolding placeOrder_eq[OF f refl p refl] f
    by (simp split: sum.split list.split)
qed

lemma last_placeOrder_sent:
  "last (sent (snd (placeOrder api L symbol side ordType posSide q t))) =
     PlaceOrderRequest \<lparr>po_InstID = okxSymbol symbol, po_TdMode = ''isolated'',
        po_Side = side, po_OrdType = ordType,
        po_Sz = fst (fst (FormatQuantity api L (okxSymbol symbol) q t)),
        po_PosSide = posSide\<rparr>"
  by (simp add: placeOrder_sent)

text \<open>
  Every call of \<open>placeOrder\<close>, on every symbol: the precision is looked up (in the cache, and
  at the exchange on a miss) for the symbol translated twice, and the order is placed on the
  symbol translated once. By \<open>okxSymbol_not_fixed\<close> the two differ.
\<close>

lemma placeOrder_requests:
  "sent (snd (placeOrder api L symbol side ordType posSide q t)) =
     sent t @
     (if precisions t (okxSymbol (okxSymbol symbol) @ ''_lotSz'') = None
      then [GetInstrumentsRequest ''SWAP'' (okxSymbol (okxSymbol symbol))] else []) @
     [PlaceOrderRequest \<lparr>po_InstID = okxSymbol symbol, po_TdMode = ''isolated'',
        po_Side = side, po_OrdType = ordType,
        po_Sz = fst (fst (FormatQuantity api L (okxSymbol symbol) q t)),
        po_PosSide = posSide\<rparr>]"
  by (simp add: placeOrder_sent FormatQuantity_eq getLotSzPrecision_sent)

lemma first_on_side_find:
  "first_on_side posSide data = find (\<lambda>p. pos_PosSide p = posSide) data"
  by (induction data) simp_all

lemma getSpecificPosition_eq:
  assumes "Account_GetPositions api [] (okxSymbol symbol) (world t) = (resp, w1)"
  shows "getSpecificPosition api symbol posSide t =
     (case resp of
        Inl err \<Rightarrow> Inl (SdkError err)
      | Inr data \<Rightarrow> Inr (find (\<lambda>p. pos_PosSide p = posSide) data),
      t\<lparr>world := w1, sent := sent t @ [GetPositionsRequest [] (okxSymbol symbol)]\<rparr>)"
  using assms
  by (simp add: getSpecificPosition_def Let_def send_eq first_on_side_find split: sum.split)

section \<open>The claims\<close>

subsection \<open>C1: the precision is looked up for the instrument of the order\<close>

text \<open>
  C1 says that the precision lookup inside \<open>FormatQuantity\<close> resolves the instrument ID
  that the submitted order carries. The code breaks this: \<open>placeOrder\<close> hands
  \<open>FormatQuantity\<close> an instrument ID where it expects a symbol, and \<open>FormatQuantity\<close>
  translates it again. On the example exchange, which lists \<open>BTC-USDT-SWAP\<close> with lot
  size \<open>0.01\<close> (precision 2), an order of quantity 2.0 on \<open>BTCUSDT\<close> asks the exchange
  for the instrument \<open>BTC-USDT-SWAP-USDT-SWAP\<close>, which does not exist, and is sent for
  \<open>BTC-USDT-SWAP\<close> with its quantity rendered at the default precision 3.
\<close>

theorem placeOrder_looks_up_another_instrument:
  "sent (snd (placeOrder (example_api []) example_lib ''BTCUSDT'' ''buy'' ''market'' ''long''
            0x4000000000000000 example_trader)) =
     [GetInstrumentsRequest ''SWAP'' ''BTC-USDT-SWAP-USDT-SWAP'',
      PlaceOrderRequest \<lparr>po_InstID = ''BTC-USDT-SWAP'', po_TdMode = ''isolated'',
        po_Side = ''buy'', po_OrdType = ''market'', po_Sz = ''2.000'', po_PosSide = ''long''\<rparr>] \<and>
   fst (getLotSzPrecision (example_api []) ''BTC-USDT-SWAP'' example_trader) = Inr 2"
  by (simp add: model_defs)

subsection \<open>C2: from symbol to instrument ID and back\<close>

lemma HasPrefix_butlast:
  assumes "strings_HasPrefix xs old" "length old < length xs"
  shows "strings_HasPrefix (butlast xs) old"
  using assms by (simp add: strings_HasPrefix_def butlast_conv_take)

lemma Replace1_first_occurrence:
  assumes "old \<noteq> []" and "\<not> strings_Contains (butlast (p @ old)) old"
  shows "strings_Replace1 (p @ old) old new = p @ new"
  using assms(2)
proof (induction p)
  case Nil
  from assms(1) obtain c cs where "old = c # cs" by (cases old) auto
  then show ?case by (simp add: strings_HasPrefix_def)
next
  case (Cons a p)
  from assms(1) have b: "butlast ((a # p) @ old) = a # butlast (p @ old)" by simp
  from Cons.prems have no_prefix: "\<not> strings_HasPrefix (a # butlast (p @ old)) old"
    and no_later: "\<not> strings_Contains (butlast (p @ old)) old"
    unfolding b by simp_all
  have "\<not> strings_HasPrefix (a # p @ old) old"
  proof
    assume "strings_HasPrefix (a # p @ old) old"
    then have "strings_HasPrefix (butlast (a # p @ old)) old"
      by (rule HasPrefix_butlast) simp
    with no_prefix b show False by simp
  qed
  with Cons.IH[OF no_later] show ?case by simp
qed

lemma inner_instrument_suffix:
  "strings_Contains (p @ ''-USDT-SWA'') ''-USDT-SWAP'' \<Longrightarrow> strings_Contains (p @ ''USD'') ''USDT''"
proof (induction p)
  case Nil
  then show ?case by (simp add: strings_HasPrefix_def)
next
  case (Cons a p)
  from Cons.prems consider (here) "strings_HasPrefix (a # p @ ''-USDT-SWA'') ''-USDT-SWAP''"
    | (later) "strings_Contains (p @ ''-USDT-SWA'') ''-USDT-SWAP''"
    by auto
  then show ?case
  proof cases
    case later
    with Cons.IH show ?thesis by simp
  next
    case here
    note t = here[unfolded strings_HasPrefix_def]
    have "strings_HasPrefix (p @ ''USD'') ''USDT''"
    proof (cases p)
      case Nil
      with t show ?thesis by (simp add: strings_HasPrefix_def)
    next
      case (Cons b p1)
      note p = this
      show ?thesis
      proof (cases p1)
        case Nil
        with t p show ?thesis by (simp add: strings_HasPrefix_def)
      next
        case (Cons c p2)
        note p1 = this
        show ?thesis
        proof (cases p2)
          case Nil
          with t p p1 show ?thesis by (simp add: strings_HasPrefix_def)
        next
          case (Cons d p3)
          note p2 = this
          show ?thesis
          proof (cases p3)
            case Nil
            with t p p1 p2 show ?thesis by (simp add: strings_HasPrefix_def)
          next
            case (Cons e p4)
            with t p p1 p2 show ?thesis by (simp add: strings_HasPrefix_def)
          qed
        qed
      qed
    qed
    then have "strings_Contains (p @ ''USD'') ''USDT''"
      by (cases "p @ ''USD''") simp_all
    then show ?thesis by simp
  qed
qed

lemma HasSuffix_append: "strings_HasSuffix (p @ suf) suf"
  by (simp add: strings_HasSuffix_def)

lemma HasSuffix_split: "strings_HasSuffix s suf \<Longrightarrow> \<exists>p. s = p @ suf"
  unfolding strings_HasSuffix_def by (metis append_take_drop_id)

text \<open>
  Where the round trip does hold: on the symbols that end in \<open>USDT\<close> and hold no other
  occurrence of it (none that starts before the suffix).
\<close>

lemma roundtrip_when_USDT_only_at_end:
  assumes "strings_HasSuffix s ''USDT''" and "\<not> strings_Contains (butlast s) ''USDT''"
  shows "standardSymbol (okxSymbol s) = s"
proof -
  from assms(1) obtain p where s: "s = p @ ''USDT''"
    by (auto dest: HasSuffix_split)
  from assms(2) have first: "\<not> strings_Contains (butlast (p @ ''USDT'')) ''USDT''"
    by (simp add: s)
  then have "\<not> strings_Contains (p @ ''USD'') ''USDT''"
    by (simp add: butlast_append)
  then have "\<not> strings_Contains (p @ ''-USDT-SWA'') ''-USDT-SWAP''"
    using inner_instrument_suffix by blast
  then have way_back: "\<not> strings_Contains (butlast (p @ ''-USDT-SWAP'')) ''-USDT-SWAP''"
    by (simp add: butlast_append)
  have "okxSymbol s = p @ ''-USDT-SWAP''"
    using Replace1_first_occurrence[OF _ first, of "''-USDT-SWAP''"] assms(1)
    by (simp add: okxSymbol_def s)
  moreover have "standardSymbol (p @ ''-USDT-SWAP'') = p @ ''USDT''"
    using Replace1_first_occurrence[OF _ way_back, of "''USDT''"] HasSuffix_append[of p "''-USDT-SWAP''"]
    by (simp add: standardSymbol_def)
  ultimately show ?thesis by (simp add: s)
qed

lemma roundtrip_BTCUSDT: "standardSymbol (okxSymbol ''BTCUSDT'') = ''BTCUSDT''"
  using roundtrip_when_USDT_only_at_end[of "''BTCUSDT''"]
  by (simp add: strings_HasSuffix_def strings_HasPrefix_def)

text \<open>
  C2 says that \<open>standardSymbol (okxSymbol s) = s\<close> for every \<open>s\<close> that ends in \<open>USDT\<close>.
  The code tests for the suffix and then replaces the leftmost occurrence, so the claim
  fails for a symbol that holds \<open>USDT\<close> before its suffix: \<open>USDTUSDT\<close> ends in \<open>USDT\<close>,
  becomes \<open>-USDT-SWAPUSDT\<close>, and stays so on the way back.
\<close>

theorem roundtrip_broken_by_inner_USDT:
  "strings_HasSuffix ''USDTUSDT'' ''USDT'' \<and>
   okxSymbol ''USDTUSDT'' = ''-USDT-SWAPUSDT'' \<and>
   standardSymbol (okxSymbol ''USDTUSDT'') = ''-USDT-SWAPUSDT'' \<and>
   standardSymbol (okxSymbol ''USDTUSDT'') \<noteq> ''USDTUSDT''"
  by (simp add: okxSymbol_def standardSymbol_def strings_HasSuffix_def strings_HasPrefix_def)

subsection \<open>C3: closing with quantity zero\<close>

text \<open>
  C3: \<open>CloseLong symbol 0\<close> asks the exchange for the positions of the instrument. When the
  answer holds no long position it returns the not-found error, and the only request sent is
  that query: no order is placed. When the answer holds a long position, \<open>CloseLong\<close> is
  \<open>placeOrder\<close> for a sell at market on the long side with the parsed amount of the first
  such position, and the last request it sends is that order, its size the amount as
  \<open>FormatQuantity\<close> renders it. \<open>CloseShort symbol 0\<close> does the same with the short position
  and a buy.
\<close>

theorem Close_with_zero_quantity:
  assumes "Account_GetPositions api [] (okxSymbol symbol) (world t) = (Inr data, w1)"
      and "t1 = t\<lparr>world := w1, sent := sent t @ [GetPositionsRequest [] (okxSymbol symbol)]\<rparr>"
  shows "(find (\<lambda>p. pos_PosSide p = ''long'') data = None \<longrightarrow>
            CloseLong api L symbol 0 t = (Inl (NoLongPosition symbol), t1)) \<and>
         (\<forall>pos. find (\<lambda>p. pos_PosSide p = ''long'') data = Some pos \<longrightarrow>
            CloseLong api L symbol 0 t =
              placeOrder api L symbol ''sell'' ''market'' ''long'' (parseFloat L (pos_Pos pos)) t1 \<and>
            last (sent (snd (CloseLong api L symbol 0 t))) =
              PlaceOrderRequest \<lparr>po_InstID = okxSymbol symbol, po_TdMode = ''isolated'',
                po_Side = ''sell'', po_OrdType = ''market'',
                po_Sz = fst (fst (FormatQuantity api L (okxSymbol symbol)
                                    (parseFloat L (pos_Pos pos)) t1)),
                po_PosSide = ''long''\<rparr>) \<and>
         (find (\<lambda>p. pos_PosSide p = ''short'') data = None \<longrightarrow>
            CloseShort api L symbol 0 t = (Inl (NoShortPosition symbol), t1)) \<and>
         (\<forall>pos. find (\<lambda>p. pos_PosSide p = ''short'') data = Some pos \<longrightarrow>
            CloseShort api L symbol 0 t =
              placeOrder api L symbol ''buy'' ''market'' ''short'' (parseFloat L (pos_Pos pos)) t1 \<and>
            last (sent (snd (CloseShort api L symbol 0 t))) =
              PlaceOrderRequest \<lparr>po_InstID = okxSymbol symbol, po_TdMode = ''isolated'',
                po_Side = ''buy'', po_OrdType = ''market'',
                po_Sz = fst (fst (FormatQuantity api L (okxSymbol symbol)
                                    (parseFloat L (pos_Pos pos)) t1)),
                po_PosSide = ''short''\<rparr>)"
proof -
  note g = getSpecificPosition_eq[OF assms(1)]
  have long_none: "CloseLong api L symbol 0 t = (Inl (NoLongPosition symbol), t1)"
    if "find (\<lambda>p. pos_PosSide p = ''long'') data = None"
    using that by (simp add: CloseLong_def f64_eq_zero_0 g assms(2))
  have long_some: "CloseLong api L symbol 0 t =
      placeOrder api L symbol ''sell'' ''market'' ''long'' (parseFloat L (pos_Pos pos)) t1"
    if "find (\<lambda>p. pos_PosSide p = ''long'') data = Some pos" for pos
    using that by (simp add: CloseLong_def f64_eq_zero_0 g assms(2))
  have short_none: "CloseShort api L symbol 0 t = (Inl (NoShortPosition symbol), t1)"
    if "find (\<lambda>p. pos_PosSide p = ''short'') data = None"
    using that by (simp add: CloseShort_def f64_eq_zero_0 g assms(2))
  have short_some: "CloseShort api L symbol 0 t =
      placeOrder api L symbol ''buy'' ''market'' ''short'' (parseFloat L (pos_Pos pos)) t1"
    if "find (\<lambda>p. pos_PosSide p = ''short'') data = Some pos" for pos
    using that by (simp add: CloseShort_def f64_eq_zero_0 g assms(2))
  show ?thesis
    using long_none long_some short_none short_some
    by (simp add: last_placeOrder_sent)
qed

theorem Close_with_zero_quantity_witness:
  "CloseLong (example_api [short_position ''2.0'']) example_lib ''BTCUSDT'' 0 example_trader =
     (Inl (NoLongPosition ''BTCUSDT''),
      \<lparr>world = Suc 0, sent = [GetPositionsRequest [] ''BTC-USDT-SWAP''],
       precisions = Map.empty\<rparr>) \<and>
   last (sent (snd (CloseLong (example_api [short_position ''2.0'', long_position ''2.0''])
                      example_lib ''BTCUSDT'' 0 example_trader))) =
     PlaceOrderRequest \<lparr>po_InstID = ''BTC-USDT-SWAP'', po_TdMode = ''isolated'',
       po_Side = ''sell'', po_OrdType = ''market'', po_Sz = ''2.000'', po_PosSide = ''long''\<rparr> \<and>
   CloseShort (example_api [long_position ''2.0'']) example_lib ''BTCUSDT'' 0 example_trader =
     (Inl (NoShortPosition ''BTCUSDT''),
      \<lparr>world = Suc 0, sent = [GetPositionsRequest [] ''BTC-USDT-SWAP''],
       precisions = Map.empty\<rparr>) \<and>
   last (sent (snd (CloseShort (example_api [short_position ''2.0'', long_position ''2.0''])
                      example_lib ''BTCUSDT'' 0 example_trader))) =
     PlaceOrderRequest \<lparr>po_InstID = ''BTC-USDT-SWAP'', po_TdMode = ''isolated'',
       po_Side = ''buy'', po_OrdType = ''market'', po_Sz = ''2.000'', po_PosSide = ''short''\<rparr>"
proof -
  let ?t1 = "\<lparr>world = Suc 0, sent = [GetPositionsRequest [] ''BTC-USDT-SWAP''],
              precisions = Map.empty\<rparr> :: nat trader"
  have g: "Account_GetPositions (example_api held) [] (okxSymbol ''BTCUSDT'')
        (world example_trader) = (Inr held, Suc 0)" for held
    by (simp add: example_api_def example_trader_def)
  have t1: "?t1 = example_trader\<lparr>world := Suc 0,
        sent := sent example_trader @ [GetPositionsRequest [] (okxSymbol ''BTCUSDT'')]\<rparr>"
    by (simp add: example_trader_def okxSymbol_BTCUSDT)
  note w = Close_with_zero_quantity[OF g t1, of _ example_lib]
  have sz: "fst (fst (FormatQuantity (example_api held) example_lib ''BTC-USDT-SWAP''
                    (parseFloat example_lib ''2.0'') ?t1)) = ''2.000''" for held
    by (simp add: model_defs parseFloat_def)
  show ?thesis
    using w[of "[short_position ''2.0'']"] w[of "[long_position ''2.0'']"]
      w[of "[short_position ''2.0'', long_position ''2.0'']"]
    by (simp add: long_position_def short_position_def sz okxSymbol_BTCUSDT
        last_placeOrder_sent)
qed

subsection \<open>C4: formatting never fails\<close>

text \<open>What the formatter prints for a finite value is a fixed-point string.\<close>

lemma digit_char: "k < 10 \<Longrightarrow> is_digit (''0123456789'' ! k)"
proof -
  assume "k < 10"
  then have "k < length ''0123456789''" by simp
  then have "''0123456789'' ! k \<in> set ''0123456789''" by (rule nth_mem)
  then show ?thesis by (simp only: is_digit_def)
qed

lemma nat_digits_not_Nil: "nat_digits n \<noteq> []"
  by (subst nat_digits.simps) simp

lemma nat_digits_digits: "list_all is_digit (nat_digits n)"
proof (induction n rule: nat_digits.induct)
  case (1 n)
  show ?case
  proof (cases "n < 10")
    case True
    then show ?thesis by (subst nat_digits.simps) (simp add: digit_char)
  next
    case False
    with 1 have "list_all is_digit (nat_digits (n div 10))" by simp
    moreover have "is_digit (''0123456789'' ! (n mod 10))" by (rule digit_char) simp
    ultimately show ?thesis using False by (subst nat_digits.simps) simp
  qed
qed

lemma length_nat_digits: "n < 10 ^ p \<Longrightarrow> 0 < p \<Longrightarrow> length (nat_digits n) \<le> p"
proof (induction n arbitrary: p rule: nat_digits.induct)
  case (1 n)
  show ?case
  proof (cases "n < 10")
    case True
    with 1(3) show ?thesis by (subst nat_digits.simps) simp
  next
    case False
    from 1(3) obtain p' where p: "p = Suc p'" by (cases p) auto
    from False 1(2) p have "0 < p'" by (cases p') auto
    moreover from 1(2) p have "n div 10 < 10 ^ p'"
      by (simp add: less_mult_imp_div_less mult.commute)
    ultimately have "length (nat_digits (n div 10)) \<le> p'"
      using 1(1)[OF False] by blast
    with False p show ?thesis by (subst nat_digits.simps) simp
  qed
qed

lemma zero_pad_fraction:
  assumes "n < 10 ^ p" "0 < p"
  shows "length (zero_pad p (nat_digits n)) = p"
    and "list_all is_digit (zero_pad p (nat_digits n))"
proof -
  from assms have "length (nat_digits n) \<le> p" by (rule length_nat_digits)
  then show "length (zero_pad p (nat_digits n)) = p" by (simp add: zero_pad_def)
  have "is_digit CHR ''0''" by (simp add: is_digit_def)
  then show "list_all is_digit (zero_pad p (nat_digits n))"
    using nat_digits_digits[of n] by (auto simp: zero_pad_def list_all_iff)
qed

lemma fixed_point_parts:
  assumes "whole \<noteq> []" "list_all is_digit whole" "length frac = p" "list_all is_digit frac"
  shows "fixed_point p (whole @ CHR ''.'' # frac)"
    and "fixed_point p (CHR ''-'' # whole @ CHR ''.'' # frac)"
proof -
  have dot: "\<not> is_digit CHR ''.''" by (simp add: is_digit_def)
  from assms(2) have all: "\<forall>c\<in>set whole. is_digit c" by (simp add: list_all_iff)
  have tw: "takeWhile is_digit (whole @ CHR ''.'' # frac) = whole"
    using all dot by (simp add: takeWhile_append2)
  have dw: "dropWhile is_digit (whole @ CHR ''.'' # frac) = CHR ''.'' # frac"
    using all dot by (simp add: dropWhile_append2)
  from assms(1) obtain c cs where w: "whole = c # cs" by (cases whole) auto
  with assms(2) have "is_digit c" by simp
  then have "c \<noteq> CHR ''-''" by (auto simp: is_digit_def)
  then have body: "(case whole @ CHR ''.'' # frac of [] \<Rightarrow> whole @ CHR ''.'' # frac
      | c # r \<Rightarrow> if c = CHR ''-'' then r else whole @ CHR ''.'' # frac) = whole @ CHR ''.'' # frac"
    by (simp add: w)
  show "fixed_point p (whole @ CHR ''.'' # frac)"
    unfolding fixed_point_def Let_def body tw dw using assms by simp
  show "fixed_point p (CHR ''-'' # whole @ CHR ''.'' # frac)"
    unfolding fixed_point_def Let_def using assms tw dw by simp
qed

lemma fmt_f_fixed_point:
  assumes "f64_finite x" "0 < p"
  shows "fixed_point p (fmt_f p x)"
proof -
  let ?n = "f64_scaled p x"
  let ?whole = "nat_digits (?n div 10 ^ p)"
  let ?frac = "zero_pad p (nat_digits (?n mod 10 ^ p))"
  have less: "?n mod 10 ^ p < 10 ^ p" by simp
  note frac = zero_pad_fraction[OF less assms(2)]
  note parts = fixed_point_parts[OF nat_digits_not_Nil nat_digits_digits frac]
  from assms have "fmt_f p x = (if f64_sign x then ''-'' else []) @ ?whole @ CHR ''.'' # ?frac"
    by (simp add: fmt_f_def f64_finite_def Let_def)
  with parts show ?thesis by simp
qed

lemma fmt_f_not_finite:
  "\<not> f64_finite x \<Longrightarrow> fmt_f p x \<in> {''NaN'', ''+Inf'', ''-Inf''}"
  by (simp add: fmt_f_def f64_finite_def)

lemma Sprintf_NaN:
  "fmt_Sprintf L ''%.3f'' 0x7FF8000000000001 = ''NaN''"
  "fmt_Sprintf L ''%.2f'' 0x7FF8000000000001 = ''NaN''"
  by (simp_all add: Sprintf_3f Sprintf_2f fmt_f_NaN)

text \<open>
  C4 as it is worded fails for a value that is not finite. On the example exchange the
  metadata lookup for \<open>DOGEUSDT\<close> fails with nothing cached, and \<open>FormatQuantity\<close> and
  \<open>FormatPrice\<close> render a NaN as \<open>NaN\<close>, which is no fixed-point string with three or
  two decimal digits.
\<close>

theorem Format_NaN_is_not_fixed_point:
  "precisions example_trader (okxSymbol ''DOGEUSDT'' @ ''_lotSz'') = None \<and>
   precisions example_trader (okxSymbol ''DOGEUSDT'' @ ''_tickSz'') = None \<and>
   isl (fst (getInstrument (example_api []) (okxSymbol ''DOGEUSDT'') example_trader)) \<and>
   fst (FormatQuantity (example_api []) example_lib ''DOGEUSDT'' 0x7FF8000000000001
          example_trader) = (''NaN'', None) \<and>
   \<not> fixed_point 3 ''NaN'' \<and>
   fst (FormatPrice (example_api []) example_lib ''DOGEUSDT'' 0x7FF8000000000001
          example_trader) = (''NaN'', None) \<and>
   \<not> fixed_point 2 ''NaN''"
  by (simp add: model_defs Sprintf_NaN fixed_point_def is_digit_def)

text \<open>
  C4, amended: \<open>FormatQuantity\<close> and \<open>FormatPrice\<close> return no error, whatever the symbol,
  the value, the exchange and the state. When the precision is not cached and the metadata
  lookup \<open>getInstrument\<close> fails, \<open>FormatQuantity\<close> renders the value as \<open>%.3f\<close> does
  and \<open>FormatPrice\<close> as \<open>%.2f\<close> does: a finite value as a fixed-point string with
  exactly 3 (for the price 2) decimal digits, and a value that is not finite as \<open>NaN\<close>,
  \<open>+Inf\<close> or \<open>-Inf\<close>.
\<close>

theorem Format_never_fails:
  "snd (fst (FormatQuantity api L symbol q t)) = None \<and>
   snd (fst (FormatPrice api L symbol p t)) = None \<and>
   (precisions t (okxSymbol symbol @ ''_lotSz'') = None \<and>
    isl (fst (getInstrument api (okxSymbol symbol) t)) \<longrightarrow>
      fst (fst (FormatQuantity api L symbol q t)) = fmt_f 3 q \<and>
      (f64_finite q \<longrightarrow> fixed_point 3 (fst (fst (FormatQuantity api L symbol q t)))) \<and>
      (\<not> f64_finite q \<longrightarrow>
         fst (fst (FormatQuantity api L symbol q t)) \<in> {''NaN'', ''+Inf'', ''-Inf''})) \<and>
   (precisions t (okxSymbol symbol @ ''_tickSz'') = None \<and>
    isl (fst (getInstrument api (okxSymbol symbol) t)) \<longrightarrow>
      fst (fst (FormatPrice api L symbol p t)) = fmt_f 2 p \<and>
      (f64_finite p \<longrightarrow> fixed_point 2 (fst (fst (FormatPrice api L symbol p t)))) \<and>
      (\<not> f64_finite p \<longrightarrow>
         fst (fst (FormatPrice api L symbol p t)) \<in> {''NaN'', ''+Inf'', ''-Inf''}))"
proof -
  have quantity: "fst (fst (FormatQuantity api L symbol q t)) = fmt_f 3 q"
    if "precisions t (okxSymbol symbol @ ''_lotSz'') = None"
      and "isl (fst (getInstrument api (okxSymbol symbol) t))"
  proof -
    from that have "isl (fst (getLotSzPrecision api (okxSymbol symbol) t))"
      by (rule getLotSzPrecision_miss_fails)
    then obtain err where "fst (getLotSzPrecision api (okxSymbol symbol) t) = Inl err"
      by (cases "fst (getLotSzPrecision api (okxSymbol symbol) t)") auto
    then show ?thesis by (simp add: FormatQuantity_eq fmt_d_3 Sprintf_3f)
  qed
  have price: "fst (fst (FormatPrice api L symbol p t)) = fmt_f 2 p"
    if "precisions t (okxSymbol symbol @ ''_tickSz'') = None"
      and "isl (fst (getInstrument api (okxSymbol symbol) t))"
  proof -
    from that have "isl (fst (getTickSzPrecision api (okxSymbol symbol) t))"
      by (rule getTickSzPrecision_miss_fails)
    then obtain err where "fst (getTickSzPrecision api (okxSymbol symbol) t) = Inl err"
      by (cases "fst (getTickSzPrecision api (okxSymbol symbol) t)") auto
    then show ?thesis by (simp add: FormatPrice_eq fmt_d_2 Sprintf_2f)
  qed
  have no_error: "snd (fst (FormatQuantity api L symbol q t)) = None"
    "snd (fst (FormatPrice api L symbol p t)) = None"
    by (simp_all add: FormatQuantity_eq FormatPrice_eq)
  have finite3: "fixed_point 3 (fmt_f 3 q)" if "f64_finite q"
    using that by (rule fmt_f_fixed_point) simp
  have finite2: "fixed_point 2 (fmt_f 2 p)" if "f64_finite p"
    using that by (rule fmt_f_fixed_point) simp
  show ?thesis
    using no_error quantity price finite3 finite2
      fmt_f_not_finite[of q 3] fmt_f_not_finite[of p 2]
    by (simp del: insert_iff)
qed

theorem Format_never_fails_witness:
  "f64_finite 0x4000000000000000 \<and>
   FormatQuantity (example_api []) example_lib ''DOGEUSDT'' 0x4000000000000000 example_trader =
     ((''2.000'', None),
      \<lparr>world = 1, sent = [GetInstrumentsRequest ''SWAP'' ''DOGE-USDT-SWAP''],
       precisions = Map.empty\<rparr>) \<and>
   fixed_point 3 ''2.000'' \<and>
   FormatPrice (example_api []) example_lib ''DOGEUSDT'' 0x4000000000000000 example_trader =
     ((''2.00'', None),
      \<lparr>world = 1, sent = [GetInstrumentsRequest ''SWAP'' ''DOGE-USDT-SWAP''],
       precisions = Map.empty\<rparr>) \<and>
   fixed_point 2 ''2.00''"
proof -
  have finite: "f64_finite 0x4000000000000000"
    by (simp add: f64_finite_def f64_exponent_def)
  have miss: "precisions example_trader (okxSymbol ''DOGEUSDT'' @ ''_lotSz'') = None"
    "precisions example_trader (okxSymbol ''DOGEUSDT'' @ ''_tickSz'') = None"
    by (simp_all add: example_trader_def)
  have fails: "isl (fst (getInstrument (example_api []) (okxSymbol ''DOGEUSDT'') example_trader))"
    by (simp add: model_defs)
  have q: "FormatQuantity (example_api []) example_lib ''DOGEUSDT'' 0x4000000000000000
        example_trader =
     ((''2.000'', None),
      \<lparr>world = 1, sent = [GetInstrumentsRequest ''SWAP'' ''DOGE-USDT-SWAP''],
       precisions = Map.empty\<rparr>)"
    and p: "FormatPrice (example_api []) example_lib ''DOGEUSDT'' 0x4000000000000000
        example_trader =
     ((''2.00'', None),
      \<lparr>world = 1, sent = [GetInstrumentsRequest ''SWAP'' ''DOGE-USDT-SWAP''],
       precisions = Map.empty\<rparr>)"
    by (simp_all add: model_defs)
  from Format_never_fails[of "example_api []" example_lib "''DOGEUSDT''" "0x4000000000000000"
      example_trader "0x4000000000000000"] miss fails finite
  have "fixed_point 3 (fst (fst (FormatQuantity (example_api []) example_lib ''DOGEUSDT''
            0x4000000000000000 example_trader)))"
    and "fixed_point 2 (fst (fst (FormatPrice (example_api []) example_lib ''DOGEUSDT''
            0x4000000000000000 example_trader)))"
    by blast+
  with finite q p show ?thesis by simp
qed

subsection \<open>C5: the outcomes of placing an order\<close>

text \<open>
  C5: once the quantity is formatted and the order request sent, \<open>placeOrder\<close> returns an
  error when the response has no entry, and the rejection error (with the exchange's message
  and code) when the status code of the first entry is not \<open>0\<close>; that error is another
  one than the error for a failed transport. Whenever \<open>placeOrder\<close> succeeds, the response
  had a first entry with status code \<open>0\<close>, and the result has the status \<open>FILLED\<close>, the
  order ID of that entry and the caller's symbol.
\<close>

theorem placeOrder_outcomes:
  assumes "FormatQuantity api L (okxSymbol symbol) q t = ((sz, fe), t1)"
      and "Trade_PlaceOrder api
             \<lparr>po_InstID = okxSymbol symbol, po_TdMode = ''isolated'', po_Side = side,
              po_OrdType = ordType, po_Sz = sz, po_PosSide = posSide\<rparr> (world t1) = (resp, w2)"
  shows "(resp = Inr [] \<longrightarrow>
            fst (placeOrder api L symbol side ordType posSide q t) = Inl NoOrderData) \<and>
         (\<forall>d ds. resp = Inr (d # ds) \<and> ord_SCode d \<noteq> ''0'' \<longrightarrow>
            fst (placeOrder api L symbol side ordType posSide q t) =
              Inl (OrderRejected (ord_SMsg d) (ord_SCode d))) \<and>
         (\<forall>err. resp = Inl err \<longrightarrow>
            fst (placeOrder api L symbol side ordType posSide q t) =
              Inl (PlaceOrderFailed (okxSymbol symbol) side sz err)) \<and>
         (\<forall>res. fst (placeOrder api L symbol side ordType posSide q t) = Inr res \<longrightarrow>
            res_status res = ''FILLED'' \<and> res_symbol res = symbol \<and>
            (\<exists>d ds. resp = Inr (d # ds) \<and> ord_SCode d = ''0'' \<and> res_orderId res = ord_OrdID d))"
  unfolding placeOrder_eq[OF assms(1) refl assms(2) refl]
  by (auto split: sum.split list.split)

theorem placeOrder_outcomes_witness:
  "fst (placeOrder ((example_api [])\<lparr>Trade_PlaceOrder := \<lambda>req w. (Inr [], Suc w)\<rparr>) example_lib
          ''BTCUSDT'' ''buy'' ''market'' ''long'' 0x4000000000000000 example_trader) =
     Inl NoOrderData \<and>
   fst (placeOrder ((example_api [])\<lparr>Trade_PlaceOrder := \<lambda>req w.
            (Inr [\<lparr>ord_OrdID = [], ord_SCode = ''51008'', ord_SMsg = ''Insufficient margin''\<rparr>],
             Suc w)\<rparr>) example_lib
          ''BTCUSDT'' ''buy'' ''market'' ''long'' 0x4000000000000000 example_trader) =
     Inl (OrderRejected ''Insufficient margin'' ''51008'') \<and>
   fst (placeOrder ((example_api [])\<lparr>Trade_PlaceOrder := \<lambda>req w. (Inl ''timeout'', Suc w)\<rparr>)
          example_lib ''BTCUSDT'' ''buy'' ''market'' ''long'' 0x4000000000000000 example_trader) =
     Inl (PlaceOrderFailed ''BTC-USDT-SWAP'' ''buy'' ''2.000'' ''timeout'') \<and>
   (\<exists>res. fst (placeOrder (example_api []) example_lib
          ''BTCUSDT'' ''buy'' ''market'' ''long'' 0x4000000000000000 example_trader) = Inr res \<and>
      res_status res = ''FILLED'' \<and> res_symbol res = ''BTCUSDT'' \<and> res_orderId res = ''42'')"
proof -
  let ?t1 = "\<lparr>world = 1, sent = [GetInstrumentsRequest ''SWAP'' ''BTC-USDT-SWAP-USDT-SWAP''],
              precisions = Map.empty\<rparr> :: nat trader"
  let ?empty = "(example_api [])\<lparr>Trade_PlaceOrder := \<lambda>req w. (Inr [], Suc w)\<rparr>"
  let ?reject = "(example_api [])\<lparr>Trade_PlaceOrder := \<lambda>req w.
            (Inr [\<lparr>ord_OrdID = [], ord_SCode = ''51008'', ord_SMsg = ''Insufficient margin''\<rparr>],
             Suc w)\<rparr>"
  let ?down = "(example_api [])\<lparr>Trade_PlaceOrder := \<lambda>req w. (Inl ''timeout'', Suc w)\<rparr>"
  have f: "FormatQuantity api example_lib (okxSymbol ''BTCUSDT'') 0x4000000000000000
             example_trader = ((''2.000'', None), ?t1)"
    if "Public_GetInstruments api = Public_GetInstruments (example_api [])" for api
    using that by (simp add: model_defs)
  have 1: "fst (placeOrder ?empty example_lib ''BTCUSDT'' ''buy'' ''market'' ''long''
             0x4000000000000000 example_trader) = Inl NoOrderData"
    using placeOrder_outcomes[OF f, of ?empty "''buy''" "''market''" "''long''" "Inr []" 2]
    by (simp add: example_api_def)
  have 2: "fst (placeOrder ?reject example_lib ''BTCUSDT'' ''buy'' ''market'' ''long''
             0x4000000000000000 example_trader) =
           Inl (OrderRejected ''Insufficient margin'' ''51008'')"
    using placeOrder_outcomes[OF f, of ?reject "''buy''" "''market''" "''long''"
        "Inr [\<lparr>ord_OrdID = [], ord_SCode = ''51008'', ord_SMsg = ''Insufficient margin''\<rparr>]" 2]
    by (simp add: example_api_def)
  have 3: "fst (placeOrder ?down example_lib ''BTCUSDT'' ''buy'' ''market'' ''long''
             0x4000000000000000 example_trader) =
           Inl (PlaceOrderFailed ''BTC-USDT-SWAP'' ''buy'' ''2.000'' ''timeout'')"
    using placeOrder_outcomes[OF f, of ?down "''buy''" "''market''" "''long''"
        "Inl ''timeout''" 2]
    by (simp add: example_api_def okxSymbol_BTCUSDT)
  have ok: "fst (placeOrder (example_api []) example_lib ''BTCUSDT'' ''buy'' ''market'' ''long''
             0x4000000000000000 example_trader) =
           Inr \<lparr>res_orderId = ''42'', res_symbol = ''BTCUSDT'', res_status = ''FILLED''\<rparr>"
    by (simp add: model_defs)
  have 4: "\<exists>res. fst (placeOrder (example_api []) example_lib
          ''BTCUSDT'' ''buy'' ''market'' ''long'' 0x4000000000000000 example_trader) = Inr res \<and>
      res_status res = ''FILLED'' \<and> res_symbol res = ''BTCUSDT'' \<and> res_orderId res = ''42''"
    using placeOrder_outcomes[OF f, of "example_api []" "''buy''" "''market''" "''long''"
        "Inr [\<lparr>ord_OrdID = ''42'', ord_SCode = ''0'', ord_SMsg = []\<rparr>]" 2] ok
    by (simp add: example_api_def)
  from 1 2 3 4 show ?thesis by blast
qed

subsection \<open>C6: cancelling all orders\<close>

lemma cancel_loop_sent:
  "sent (cancel_loop api instID algos t) =
     sent t @ map (\<lambda>algo. CancelAlgoOrderRequest instID (AlgoID algo)) algos"
  by (induction algos arbitrary: t) (simp_all add: send_eq split: prod.split)

text \<open>
  C6: \<open>CancelAllOrders\<close> returns no error, whatever the two listings and the cancel
  requests answer. It sends the stop-loss listing, one cancel request for every order of
  that listing (none when the listing failed), then the take-profit listing, and one
  cancel request for every order of that listing: a failed listing does not keep the other
  pass from running, and no answer to a cancel request stops the requests after it.
\<close>

theorem CancelAllOrders_always_succeeds:
  assumes "Trade_GetAlgoOrderList api ''SWAP'' (okxSymbol symbol) ''stop'' (world t) = (r1, w1)"
      and "t1 = t\<lparr>world := w1,
                   sent := sent t @ [GetAlgoOrderListRequest ''SWAP'' (okxSymbol symbol) ''stop'']\<rparr>"
      and "t2 = (case r1 of Inl err \<Rightarrow> t1
                 | Inr algos \<Rightarrow> cancel_loop api (okxSymbol symbol) algos t1)"
      and "Trade_GetAlgoOrderList api ''SWAP'' (okxSymbol symbol) ''tp'' (world t2) = (r2, w3)"
  shows "fst (CancelAllOrders api symbol t) = None \<and>
         sent (snd (CancelAllOrders api symbol t)) =
           sent t @
           [GetAlgoOrderListRequest ''SWAP'' (okxSymbol symbol) ''stop''] @
           (case r1 of Inl err \<Rightarrow> []
            | Inr algos \<Rightarrow>
                map (\<lambda>algo. CancelAlgoOrderRequest (okxSymbol symbol) (AlgoID algo)) algos) @
           [GetAlgoOrderListRequest ''SWAP'' (okxSymbol symbol) ''tp''] @
           (case r2 of Inl err \<Rightarrow> []
            | Inr algos \<Rightarrow>
                map (\<lambda>algo. CancelAlgoOrderRequest (okxSymbol symbol) (AlgoID algo)) algos)"
proof -
  let ?inst = "okxSymbol symbol"
  let ?t3 = "t2\<lparr>world := w3,
                sent := sent t2 @ [GetAlgoOrderListRequest ''SWAP'' ?inst ''tp'']\<rparr>"
  have s1: "send (GetAlgoOrderListRequest ''SWAP'' ?inst ''stop'')
              (Trade_GetAlgoOrderList api ''SWAP'' ?inst ''stop'') t = (r1, t1)"
    by (simp add: send_eq assms(1,2))
  have s2: "send (GetAlgoOrderListRequest ''SWAP'' ?inst ''tp'')
              (Trade_GetAlgoOrderList api ''SWAP'' ?inst ''tp'') t2 = (r2, ?t3)"
    by (simp add: send_eq assms(4))
  have run: "CancelAllOrders api symbol t =
      (None, case r2 of Inl err \<Rightarrow> ?t3 | Inr algos \<Rightarrow> cancel_loop api ?inst algos ?t3)"
    unfolding CancelAllOrders_def Let_def s1 prod.case assms(3)[symmetric] s2
    by simp
  have t2: "sent t2 = sent t @
      [GetAlgoOrderListRequest ''SWAP'' ?inst ''stop''] @
      (case r1 of Inl err \<Rightarrow> []
       | Inr algos \<Rightarrow> map (\<lambda>algo. CancelAlgoOrderRequest ?inst (AlgoID algo)) algos)"
    by (simp add: assms(2,3) cancel_loop_sent split: sum.split)
  have "sent (snd (CancelAllOrders api symbol t)) =
      sent t2 @ [GetAlgoOrderListRequest ''SWAP'' ?inst ''tp''] @
      (case r2 of Inl err \<Rightarrow> []
       | Inr algos \<Rightarrow> map (\<lambda>algo. CancelAlgoOrderRequest ?inst (AlgoID algo)) algos)"
    by (simp add: run cancel_loop_sent split: sum.split)
  with t2 show ?thesis by (simp add: run)
qed

theorem CancelAllOrders_always_succeeds_witness:
  "fst (CancelAllOrders (example_api []) ''BTCUSDT'' example_trader) = None \<and>
   sent (snd (CancelAllOrders (example_api []) ''BTCUSDT'' example_trader)) =
     [GetAlgoOrderListRequest ''SWAP'' ''BTC-USDT-SWAP'' ''stop'',
      GetAlgoOrderListRequest ''SWAP'' ''BTC-USDT-SWAP'' ''tp'',
      CancelAlgoOrderRequest ''BTC-USDT-SWAP'' ''a1'',
      CancelAlgoOrderRequest ''BTC-USDT-SWAP'' ''a2'']"
proof -
  let ?t1 = "\<lparr>world = Suc 0,
              sent = [GetAlgoOrderListRequest ''SWAP'' ''BTC-USDT-SWAP'' ''stop''],
              precisions = Map.empty\<rparr> :: nat trader"
  have 1: "Trade_GetAlgoOrderList (example_api []) ''SWAP'' (okxSymbol ''BTCUSDT'') ''stop''
        (world example_trader) = (Inl ''timeout'', Suc 0)"
    by (simp add: example_api_def example_trader_def)
  have 2: "?t1 = example_trader\<lparr>world := Suc 0,
        sent := sent example_trader @
          [GetAlgoOrderListRequest ''SWAP'' (okxSymbol ''BTCUSDT'') ''stop'']\<rparr>"
    by (simp add: example_trader_def okxSymbol_BTCUSDT)
  have 3: "?t1 = (case Inl ''timeout'' :: string + algo_order list of Inl err \<Rightarrow> ?t1
        | Inr algos \<Rightarrow> cancel_loop (example_api []) (okxSymbol ''BTCUSDT'') algos ?t1)"
    by simp
  have 4: "Trade_GetAlgoOrderList (example_api []) ''SWAP'' (okxSymbol ''BTCUSDT'') ''tp''
        (world ?t1) = (Inr [\<lparr>AlgoID = ''a1''\<rparr>, \<lparr>AlgoID = ''a2''\<rparr>], Suc (Suc 0))"
    by (simp add: example_api_def)
  show ?thesis
    using CancelAllOrders_always_succeeds[OF 1 2 3 4]
    by (simp add: example_trader_def okxSymbol_BTCUSDT)
qed

subsection \<open>C7: setting the leverage\<close>

lemma SetLeverage_eq:
  assumes "Account_SetLeverage api (okxSymbol symbol) (fmt_d leverage) ''isolated'' (world t) =
             (r, w1)"
  shows "SetLeverage api symbol leverage t =
     (case r of
        None \<Rightarrow> None
      | Some err \<Rightarrow>
          if strings_Contains err ''Leverage not change'' then None
          else Some (SetLeverageFailed err),
      t\<lparr>world := w1,
        sent := sent t @ [SetLeverageRequest (okxSymbol symbol) (fmt_d leverage) ''isolated'']\<rparr>)"
  using assms by (simp add: SetLeverage_def Let_def send_eq split: option.split)

text \<open>
  C7: \<open>SetLeverage\<close> returns no error when the exchange accepts the request, and none
  when the exchange's error contains \<open>Leverage not change\<close>; every other error of the
  exchange is returned, wrapped. Hence two calls in a row with the same arguments both
  return no error when the exchange answers each of them with success or with that error.
\<close>

theorem SetLeverage_unchanged_is_success:
  assumes "Account_SetLeverage api (okxSymbol symbol) (fmt_d leverage) ''isolated'' (world t) =
             (r, w1)"
      and "Account_SetLeverage api (okxSymbol symbol) (fmt_d leverage) ''isolated'' w1 =
             (r', w2)"
  shows "(r = None \<longrightarrow> fst (SetLeverage api symbol leverage t) = None) \<and>
         (\<forall>err. r = Some err \<and> strings_Contains err ''Leverage not change'' \<longrightarrow>
            fst (SetLeverage api symbol leverage t) = None) \<and>
         (\<forall>err. r = Some err \<and> \<not> strings_Contains err ''Leverage not change'' \<longrightarrow>
            fst (SetLeverage api symbol leverage t) = Some (SetLeverageFailed err)) \<and>
         ((r = None \<or> (\<exists>err. r = Some err \<and> strings_Contains err ''Leverage not change'')) \<and>
          (r' = None \<or> (\<exists>err. r' = Some err \<and> strings_Contains err ''Leverage not change'')) \<longrightarrow>
            fst (SetLeverage api symbol leverage t) = None \<and>
            fst (SetLeverage api symbol leverage (snd (SetLeverage api symbol leverage t))) = None)"
proof -
  note first = SetLeverage_eq[OF assms(1)]
  have "Account_SetLeverage api (okxSymbol symbol) (fmt_d leverage) ''isolated''
          (world (snd (SetLeverage api symbol leverage t))) = (r', w2)"
    by (simp add: first assms(2))
  note second = SetLeverage_eq[OF this]
  show ?thesis
    unfolding second unfolding first by auto
qed

theorem SetLeverage_unchanged_is_success_witness:
  "fst (SetLeverage (example_api []) ''BTCUSDT'' 10 example_trader) = None \<and>
   fst (SetLeverage (example_api []) ''BTCUSDT'' 10
          (snd (SetLeverage (example_api []) ''BTCUSDT'' 10 example_trader))) = None \<and>
   fst (SetLeverage ((example_api [])\<lparr>Account_SetLeverage := \<lambda>instID lever mgnMode w.
          (Some ''59000: Setting failed'', Suc w)\<rparr>) ''BTCUSDT'' 10 example_trader) =
     Some (SetLeverageFailed ''59000: Setting failed'')"
proof -
  let ?failing = "(example_api [])\<lparr>Account_SetLeverage := \<lambda>instID lever mgnMode w.
          (Some ''59000: Setting failed'', Suc w)\<rparr>"
  have 1: "Account_SetLeverage (example_api []) (okxSymbol ''BTCUSDT'') (fmt_d 10) ''isolated''
        (world example_trader) = (None, Suc 0)"
    by (simp add: example_api_def example_trader_def)
  have 2: "Account_SetLeverage (example_api []) (okxSymbol ''BTCUSDT'') (fmt_d 10) ''isolated''
        (Suc 0) = (Some ''51000: Leverage not change'', Suc (Suc 0))"
    by (simp add: example_api_def)
  have 3: "Account_SetLeverage ?failing (okxSymbol ''BTCUSDT'') (fmt_d 10) ''isolated'' w =
        (Some ''59000: Setting failed'', Suc w)" for w
    by (simp add: example_api_def)
  have unchanged: "strings_Contains ''51000: Leverage not change'' ''Leverage not change''"
    by (simp add: strings_HasPrefix_def)
  have other: "\<not> strings_Contains ''59000: Setting failed'' ''Leverage not change''"
    by (simp add: strings_HasPrefix_def)
  have twice: "fst (SetLeverage (example_api []) ''BTCUSDT'' 10 example_trader) = None \<and>
      fst (SetLeverage (example_api []) ''BTCUSDT'' 10
             (snd (SetLeverage (example_api []) ''BTCUSDT'' 10 example_trader))) = None"
    using SetLeverage_unchanged_is_success[OF 1 2] unchanged
    by (simp del: strings_Contains.simps)
  have failed: "fst (SetLeverage ?failing ''BTCUSDT'' 10 example_trader) =
      Some (SetLeverageFailed ''59000: Setting failed'')"
    using SetLeverage_unchanged_is_success[OF 3 3] other
    by (simp del: strings_Contains.simps)
  from twice failed show ?thesis by simp
qed

subsection \<open>C8: listing the positions\<close>

lemma positions_loop_eq:
  "positions_loop L data result =
     result @ map (posMap L)
       (filter (\<lambda>pos. \<not> f64_eq_zero (parseFloat L (pos_Pos pos))) data)"
  by (induction data arbitrary: result) (simp_all add: Let_def)

text \<open>
  C8: when the exchange answers with the positions \<open>data\<close>, \<open>GetPositions\<close> returns the
  maps of exactly the entries whose parsed amount is not zero, in the order of \<open>data\<close>;
  the symbol of a map is the instrument ID of its entry put through \<open>standardSymbol\<close>,
  its side and amount are the entry's.
\<close>

theorem GetPositions_keeps_nonzero_in_order:
  assumes "Account_GetPositions api ''SWAP'' [] (world t) = (Inr data, w1)"
  shows "fst (GetPositions api L t) =
           Inr (map (posMap L)
                  (filter (\<lambda>pos. \<not> f64_eq_zero (parseFloat L (pos_Pos pos))) data)) \<and>
         pm_symbol (posMap L pos) = standardSymbol (pos_InstID pos) \<and>
         pm_side (posMap L pos) = pos_PosSide pos \<and>
         pm_positionAmt (posMap L pos) = parseFloat L (pos_Pos pos)"
  using assms by (simp add: GetPositions_def send_eq positions_loop_eq posMap_def)

theorem GetPositions_keeps_nonzero_in_order_witness:
  "fst (GetPositions (example_api [long_position ''0'', short_position ''2.0''])
          example_lib example_trader) =
     Inr [\<lparr>pm_symbol = ''ETHUSDT'', pm_side = ''short'', pm_positionAmt = 0x4000000000000000,
           pm_entryPrice = 0, pm_markPrice = 0, pm_unRealizedProfit = 0, pm_leverage = 0,
           pm_liquidationPrice = 0\<rparr>]"
proof -
  have 1: "Account_GetPositions (example_api [long_position ''0'', short_position ''2.0''])
        ''SWAP'' [] (world example_trader) =
        (Inr [long_position ''0'', short_position ''2.0''], Suc 0)"
    by (simp add: example_api_def example_trader_def)
  show ?thesis
    using GetPositions_keeps_nonzero_in_order[OF 1, of example_lib]
    by (simp add: long_position_def short_position_def posMap_def parseFloat_def
        example_numbers example_lib_def f64_eq_zero_def standardSymbol_def strings_HasSuffix_def
        strings_HasPrefix_def)
qed

subsection \<open>C9: the trade side of a conditional order\<close>

lemma placeAlgoOrder_sent:
  "sent (snd (placeAlgoOrder api symbol posSide ordType triggerPrice sz t)) =
     sent t @
     [PlaceAlgoOrderRequest
        \<lparr>pa_InstID = okxSymbol symbol, pa_TdMode = ''isolated'',
         pa_Side = (if posSide = ''short'' then ''buy'' else ''sell''),
         pa_PosSide = posSide, pa_OrdType = ordType, pa_Sz = sz,
         pa_SlTriggerPx = (if ordType = ''stop'' then triggerPrice else []),
         pa_SlOrdPx = (if ordType = ''stop'' then ''-1'' else []),
         pa_TpTriggerPx = (if ordType = ''tp'' then triggerPrice else []),
         pa_TpOrdPx = (if ordType = ''tp'' then ''-1'' else [])\<rparr>]"
proof -
  have snd_case: "sent (snd (case r of
        (Inl err, t') \<Rightarrow> (Some (PlaceAlgoOrderFailed err), t')
      | (Inr [], t') \<Rightarrow> (Some NoAlgoData, t')
      | (Inr (d # others), t') \<Rightarrow>
          if algo_SCode d \<noteq> ''0''
          then (Some (AlgoOrderRejected (algo_SMsg d) (algo_SCode d)), t')
          else (None, t'))) = sent (snd r)" for r :: "(string + algo_data list) \<times> 'a trader"
    by (cases r) (simp split: sum.split list.split)
  consider (stop) "ordType = ''stop''" | (tp) "ordType = ''tp''"
    | (other) "ordType \<noteq> ''stop''" "ordType \<noteq> ''tp''"
    by blast
  then show ?thesis
  proof cases
    case stop
    then show ?thesis
      unfolding placeAlgoOrder_def Let_def snd_case by (simp add: send_eq)
  next
    case tp
    then show ?thesis
      unfolding placeAlgoOrder_def Let_def snd_case by (simp add: send_eq)
  next
    case other
    then show ?thesis
      unfolding placeAlgoOrder_def Let_def snd_case by (simp add: send_eq)
  qed
qed

lemma SetStopLoss_eq:
  "SetStopLoss api L symbol positionSide q p t =
     placeAlgoOrder api symbol (strings_ToLower L positionSide) ''stop''
       (fst (fst (FormatPrice api L (okxSymbol symbol) p
                    (snd (FormatQuantity api L (okxSymbol symbol) q t)))))
       (fst (fst (FormatQuantity api L (okxSymbol symbol) q t)))
       (snd (FormatPrice api L (okxSymbol symbol) p
               (snd (FormatQuantity api L (okxSymbol symbol) q t))))"
  by (simp add: SetStopLoss_def Let_def FormatQuantity_eq FormatPrice_eq)

lemma SetTakeProfit_eq:
  "SetTakeProfit api L symbol positionSide q p t =
     placeAlgoOrder api symbol (strings_ToLower L positionSide) ''tp''
       (fst (fst (FormatPrice api L (okxSymbol symbol) p
                    (snd (FormatQuantity api L (okxSymbol symbol) q t)))))
       (fst (fst (FormatQuantity api L (okxSymbol symbol) q t)))
       (snd (FormatPrice api L (okxSymbol symbol) p
               (snd (FormatQuantity api L (okxSymbol symbol) q t))))"
  by (simp add: SetTakeProfit_def Let_def FormatQuantity_eq FormatPrice_eq)

lemma last_placeAlgoOrder_sent:
  "\<exists>req. last (sent (snd (placeAlgoOrder api symbol posSide ordType triggerPrice sz t))) =
           PlaceAlgoOrderRequest req \<and>
         pa_OrdType req = ordType \<and> pa_PosSide req = posSide \<and>
         pa_Side req = (if posSide = ''short'' then ''buy'' else ''sell'')"
  unfolding placeAlgoOrder_sent by simp

text \<open>
  C9: for every symbol, quantity and trigger price, the last request \<open>SetStopLoss\<close> and
  \<open>SetTakeProfit\<close> send is a conditional order (of type \<open>stop\<close> and \<open>tp\<close>) for the
  lower-cased position side, and its trade side is \<open>sell\<close> when that position side is
  \<open>long\<close> and \<open>buy\<close> when it is \<open>short\<close>.
\<close>

theorem conditional_order_side:
  "(strings_ToLower L positionSide = ''long'' \<longrightarrow>
      (\<exists>req. last (sent (snd (SetStopLoss api L symbol positionSide q p t))) =
               PlaceAlgoOrderRequest req \<and>
             pa_OrdType req = ''stop'' \<and> pa_PosSide req = ''long'' \<and> pa_Side req = ''sell'') \<and>
      (\<exists>req. last (sent (snd (SetTakeProfit api L symbol positionSide q p t))) =
               PlaceAlgoOrderRequest req \<and>
             pa_OrdType req = ''tp'' \<and> pa_PosSide req = ''long'' \<and> pa_Side req = ''sell'')) \<and>
   (strings_ToLower L positionSide = ''short'' \<longrightarrow>
      (\<exists>req. last (sent (snd (SetStopLoss api L symbol positionSide q p t))) =
               PlaceAlgoOrderRequest req \<and>
             pa_OrdType req = ''stop'' \<and> pa_PosSide req = ''short'' \<and> pa_Side req = ''buy'') \<and>
      (\<exists>req. last (sent (snd (SetTakeProfit api L symbol positionSide q p t))) =
               PlaceAlgoOrderRequest req \<and>
             pa_OrdType req = ''tp'' \<and> pa_PosSide req = ''short'' \<and> pa_Side req = ''buy''))"
proof -
  have stop: "\<exists>req. last (sent (snd (SetStopLoss api L symbol positionSide q p t))) =
           PlaceAlgoOrderRequest req \<and>
         pa_OrdType req = ''stop'' \<and> pa_PosSide req = side \<and> pa_Side req = trade"
    if "strings_ToLower L positionSide = side"
      and "trade = (if side = ''short'' then ''buy'' else ''sell'')" for side trade
    unfolding SetStopLoss_eq that
    by (rule last_placeAlgoOrder_sent)
  have tp: "\<exists>req. last (sent (snd (SetTakeProfit api L symbol positionSide q p t))) =
           PlaceAlgoOrderRequest req \<and>
         pa_OrdType req = ''tp'' \<and> pa_PosSide req = side \<and> pa_Side req = trade"
    if "strings_ToLower L positionSide = side"
      and "trade = (if side = ''short'' then ''buy'' else ''sell'')" for side trade
    unfolding SetTakeProfit_eq that
    by (rule last_placeAlgoOrder_sent)
  have sell: "''sell'' = (if ''long'' = ''short'' then ''buy'' else ''sell'')"
    and buy: "''buy'' = (if ''short'' = ''short'' then ''buy'' else ''sell'')"
    by simp_all
  show ?thesis
    using stop[OF _ sell] tp[OF _ sell] stop[OF _ buy] tp[OF _ buy] by blast
qed

theorem conditional_order_side_witness:
  "(\<exists>req. last (sent (snd (SetStopLoss (example_api []) example_lib ''BTCUSDT'' ''long''
                             0x4000000000000000 0x4000000000000000 example_trader))) =
            PlaceAlgoOrderRequest req \<and>
          pa_OrdType req = ''stop'' \<and> pa_PosSide req = ''long'' \<and> pa_Side req = ''sell'') \<and>
   (\<exists>req. last (sent (snd (SetTakeProfit (example_api []) example_lib ''BTCUSDT'' ''SHORT''
                             0x4000000000000000 0x4000000000000000 example_trader))) =
            PlaceAlgoOrderRequest req \<and>
          pa_OrdType req = ''tp'' \<and> pa_PosSide req = ''short'' \<and> pa_Side req = ''buy'')"
proof -
  have long: "strings_ToLower example_lib ''long'' = ''long''"
    and short: "strings_ToLower example_lib ''SHORT'' = ''short''"
    by (simp_all add: example_lib_def)
  from long
    conditional_order_side[of example_lib "''long''" "example_api []" "''BTCUSDT''"
        "0x4000000000000000" "0x4000000000000000" example_trader]
  have 1: "\<exists>req. last (sent (snd (SetStopLoss (example_api []) example_lib ''BTCUSDT'' ''long''
                             0x4000000000000000 0x4000000000000000 example_trader))) =
            PlaceAlgoOrderRequest req \<and>
          pa_OrdType req = ''stop'' \<and> pa_PosSide req = ''long'' \<and> pa_Side req = ''sell''"
    by blast
  from short
    conditional_order_side[of example_lib "''SHORT''" "example_api []" "''BTCUSDT''"
        "0x4000000000000000" "0x4000000000000000" example_trader]
  have 2: "\<exists>req. last (sent (snd (SetTakeProfit (example_api []) example_lib ''BTCUSDT'' ''SHORT''
                             0x4000000000000000 0x4000000000000000 example_trader))) =
            PlaceAlgoOrderRequest req \<and>
          pa_OrdType req = ''tp'' \<and> pa_PosSide req = ''short'' \<and> pa_Side req = ''buy''"
    by blast
  from 1 2 show ?thesis by (rule conjI)
qed

subsection \<open>C10: malformed numbers\<close>

lemma parseFloat_malformed:
  "strconv_ParseFloat L s = SyntaxError \<Longrightarrow> parseFloat L s = 0"
  by (simp add: parseFloat_def)

lemma filter_well_formed:
  "filter (\<lambda>pos. strconv_ParseFloat L (pos_Pos pos) \<noteq> SyntaxError \<and>
                 \<not> f64_eq_zero (parseFloat L (pos_Pos pos))) (data :: position list) =
   filter (\<lambda>pos. \<not> f64_eq_zero (parseFloat L (pos_Pos pos))) data"
proof -
  have "(strconv_ParseFloat L (pos_Pos pos) \<noteq> SyntaxError \<and>
         \<not> f64_eq_zero (parseFloat L (pos_Pos pos))) =
        (\<not> f64_eq_zero (parseFloat L (pos_Pos pos)))" for pos :: position
    using parseFloat_malformed[of L "pos_Pos pos"] f64_eq_zero_0 by auto
  then show ?thesis by simp
qed

lemma parseFloat_special: "strconv_special s = Some f \<Longrightarrow> parseFloat L s = f"
  by (simp add: parseFloat_def ParseFloat_special)

lemma parseFloat_NaN: "parseFloat L ''NaN'' = 0x7FF8000000000001"
  by (simp add: parseFloat_def ParseFloat_NaN)

text \<open>
  C10 as it is worded fails: \<open>NaN\<close> is no decimal number, and \<open>strconv.ParseFloat\<close>
  accepts it. \<open>parseFloat\<close> returns the NaN, which is not equal to zero, so
  \<open>GetPositions\<close> keeps a position whose amount is \<open>NaN\<close>, and \<open>GetBalance\<close> returns
  the NaN for an unrealized PnL of \<open>NaN\<close>.
\<close>

theorem NaN_amount_is_kept:
  "parseFloat example_lib ''NaN'' = 0x7FF8000000000001 \<and>
   \<not> f64_eq_zero (parseFloat example_lib ''NaN'') \<and>
   fst (GetPositions (example_api [long_position ''NaN'', short_position ''2.0''])
          example_lib example_trader) =
     Inr [posMap example_lib (long_position ''NaN''),
          posMap example_lib (short_position ''2.0'')] \<and>
   pm_positionAmt (posMap example_lib (long_position ''NaN'')) = 0x7FF8000000000001 \<and>
   fst (GetBalance ((example_api [])\<lparr>Account_GetAccount := \<lambda>ccy w.
            (Inr [\<lparr>acc_TotalEq = ''1000'', acc_Upl = ''NaN'', acc_AvailEq = ''800''\<rparr>],
             Suc w)\<rparr>) example_lib example_trader) =
     Inr \<lparr>totalWalletBalance = 0x7FF8000000000001, availableBalance = 0x4089000000000000,
          totalUnrealizedProfit = 0x7FF8000000000001\<rparr>"
proof -
  have nonzero: "\<not> f64_eq_zero 0x7FF8000000000001"
    by (simp add: f64_eq_zero_def)
  have two: "parseFloat example_lib ''2.0'' = 0x4000000000000000"
    "parseFloat example_lib ''800'' = 0x4089000000000000"
    "parseFloat example_lib ''1000'' = 0x408F400000000000"
    by (simp_all add: parseFloat_def example_numbers example_lib_def)
  have two_nonzero: "\<not> f64_eq_zero 0x4000000000000000"
    by (simp add: f64_eq_zero_def)
  have positions: "fst (GetPositions (example_api [long_position ''NaN'', short_position ''2.0''])
          example_lib example_trader) =
     Inr [posMap example_lib (long_position ''NaN''),
          posMap example_lib (short_position ''2.0'')]"
    by (simp add: GetPositions_def send_eq example_api_def example_trader_def Let_def
        long_position_def short_position_def parseFloat_NaN two nonzero two_nonzero)
  have amount: "pm_positionAmt (posMap example_lib (long_position ''NaN'')) =
      0x7FF8000000000001"
    by (simp add: posMap_def long_position_def parseFloat_NaN)
  have sub: "float64_sub example_lib 0x408F400000000000 0x7FF8000000000001 =
      0x7FF8000000000001"
    by (simp add: example_lib_def)
  have balance: "fst (GetBalance ((example_api [])\<lparr>Account_GetAccount := \<lambda>ccy w.
            (Inr [\<lparr>acc_TotalEq = ''1000'', acc_Upl = ''NaN'', acc_AvailEq = ''800''\<rparr>],
             Suc w)\<rparr>) example_lib example_trader) =
     Inr \<lparr>totalWalletBalance = 0x7FF8000000000001, availableBalance = 0x4089000000000000,
          totalUnrealizedProfit = 0x7FF8000000000001\<rparr>"
    by (simp add: GetBalance_def send_eq example_api_def example_trader_def Let_def
        parseFloat_NaN two sub)
  from nonzero positions amount balance show ?thesis
    by (simp add: parseFloat_NaN)
qed

text \<open>
  C10, amended: \<open>parseFloat\<close> drops the parse error, so a string that
  \<open>strconv.ParseFloat\<close> rejects with a syntax error parses as \<open>0\<close>, while the special
  values it accepts (\<open>NaN\<close>, \<open>Inf\<close>, \<open>Infinity\<close>) parse as themselves. Consequently
  the loop of \<open>GetPositions\<close> skips a position whose amount is so rejected, and
  \<open>GetPositions\<close> returns, without an error, what it returns for the response without
  such positions. \<open>GetBalance\<close> returns, without an error, the balance computed with
  \<open>0\<close> in the place of a total equity, unrealized PnL or available equity that is so
  rejected.
\<close>

theorem malformed_numbers_are_zero:
  "(strconv_ParseFloat L s = SyntaxError \<longrightarrow> parseFloat L s = 0) \<and>
   (strconv_special s = Some f \<longrightarrow> parseFloat L s = f) \<and>
   (strconv_ParseFloat L (pos_Pos pos) = SyntaxError \<longrightarrow>
      positions_loop L (pos # rest) result = positions_loop L rest result) \<and>
   (Account_GetPositions api ''SWAP'' [] (world t) = (Inr data, w1) \<longrightarrow>
      fst (GetPositions api L t) =
        Inr (positions_loop L
               (filter (\<lambda>pos. strconv_ParseFloat L (pos_Pos pos) \<noteq> SyntaxError) data) [])) \<and>
   (Account_GetAccount api ''USDT'' (world t) = (Inr (acc # others), w2) \<longrightarrow>
      (\<exists>b. fst (GetBalance api L t) = Inr b \<and>
         (strconv_ParseFloat L (acc_TotalEq acc) = SyntaxError \<longrightarrow>
            totalWalletBalance b = float64_sub L 0 (parseFloat L (acc_Upl acc))) \<and>
         (strconv_ParseFloat L (acc_Upl acc) = SyntaxError \<longrightarrow>
            totalUnrealizedProfit b = 0 \<and>
            totalWalletBalance b = float64_sub L (parseFloat L (acc_TotalEq acc)) 0) \<and>
         (strconv_ParseFloat L (acc_AvailEq acc) = SyntaxError \<longrightarrow>
            availableBalance b = 0)))"
proof -
  have parse: "parseFloat L s = 0" if "strconv_ParseFloat L s = SyntaxError"
    using that by (rule parseFloat_malformed)
  have skipped: "positions_loop L (pos # rest) result = positions_loop L rest result"
    if "strconv_ParseFloat L (pos_Pos pos) = SyntaxError"
    using that by (simp add: parseFloat_malformed f64_eq_zero_0)
  have positions: "fst (GetPositions api L t) =
      Inr (positions_loop L
             (filter (\<lambda>pos. strconv_ParseFloat L (pos_Pos pos) \<noteq> SyntaxError) data) [])"
    if "Account_GetPositions api ''SWAP'' [] (world t) = (Inr data, w1)"
    using that by (simp add: GetPositions_def send_eq positions_loop_eq filter_well_formed)
  have balance: "\<exists>b. fst (GetBalance api L t) = Inr b \<and>
         (strconv_ParseFloat L (acc_TotalEq acc) = SyntaxError \<longrightarrow>
            totalWalletBalance b = float64_sub L 0 (parseFloat L (acc_Upl acc))) \<and>
         (strconv_ParseFloat L (acc_Upl acc) = SyntaxError \<longrightarrow>
            totalUnrealizedProfit b = 0 \<and>
            totalWalletBalance b = float64_sub L (parseFloat L (acc_TotalEq acc)) 0) \<and>
         (strconv_ParseFloat L (acc_AvailEq acc) = SyntaxError \<longrightarrow>
            availableBalance b = 0)"
    if "Account_GetAccount api ''USDT'' (world t) = (Inr (acc # others), w2)"
    using that by (simp add: GetBalance_def send_eq Let_def parseFloat_malformed)
  have accepted: "parseFloat L s = f" if "strconv_special s = Some f"
    using that by (rule parseFloat_special)
  show ?thesis
    by (intro conjI impI) (fact parse accepted skipped positions balance)+
qed

theorem malformed_numbers_are_zero_witness:
  "parseFloat example_lib ''n/a'' = 0 \<and>
   fst (GetPositions (example_api [long_position ''n/a'', short_position ''2.0''])
          example_lib example_trader) =
     Inr [posMap example_lib (short_position ''2.0'')] \<and>
   fst (GetBalance (example_api [long_position ''n/a'', short_position ''2.0''])
          example_lib example_trader) =
     Inr \<lparr>totalWalletBalance = 0x408F400000000000, availableBalance = 0x4089000000000000,
          totalUnrealizedProfit = 0\<rparr>"
proof -
  let ?api = "example_api [long_position ''n/a'', short_position ''2.0'']"
  let ?acc = "\<lparr>acc_TotalEq = ''1000'', acc_Upl = ''n/a'', acc_AvailEq = ''800''\<rparr>"
  have bad: "strconv_ParseFloat example_lib ''n/a'' = SyntaxError"
    by (simp add: example_numbers example_lib_def)
  have 1: "Account_GetPositions ?api ''SWAP'' [] (world example_trader) =
        (Inr [long_position ''n/a'', short_position ''2.0''], Suc 0)"
    by (simp add: example_api_def example_trader_def)
  have 2: "Account_GetAccount ?api ''USDT'' (world example_trader) = (Inr [?acc], Suc 0)"
    by (simp add: example_api_def example_trader_def)
  note w = malformed_numbers_are_zero[where L = example_lib and s = "''n/a''" and api = ?api
      and t = example_trader and data = "[long_position ''n/a'', short_position ''2.0'']"
      and ?w1.0 = "Suc 0" and acc = ?acc and others = "[]" and ?w2.0 = "Suc 0"]
  have a: "parseFloat example_lib ''n/a'' = 0"
    using w bad by simp
  have b: "fst (GetPositions ?api example_lib example_trader) =
      Inr [posMap example_lib (short_position ''2.0'')]"
    using w 1 by (simp add: long_position_def short_position_def example_numbers
        example_lib_def parseFloat_def f64_eq_zero_def Let_def)
  have c: "fst (GetBalance ?api example_lib example_trader) =
     Inr \<lparr>totalWalletBalance = 0x408F400000000000, availableBalance = 0x4089000000000000,
          totalUnrealizedProfit = 0\<rparr>"
    by (simp add: GetBalance_def send_eq example_api_def example_numbers example_lib_def
        example_trader_def parseFloat_def Let_def)
  from a b c show ?thesis by simp
qed

end
